theory Spec2Isabelle
  imports Main "HOL-Library.Word"
begin

unbundle bit_operations_syntax

section \<open>Values of the host runtime\<close>

text \<open>
  The hooks of \<^verbatim>\<open>src/unnamed/part_002\<close> (lines 1120 to 1420, the variant with the
  concealment registry) inspect values of a dynamically typed host.  A value is
  \<^verbatim>\<open>undefined\<close>, \<^verbatim>\<open>null\<close>, a boolean, an integral number, a string of 8-bit
  characters or a reference to an object of the heap.  Numbers that are not integral
  (fractions, NaN, the infinities) are not values of the model; where an operation of the
  source produces NaN the model says so with \<open>None\<close>.
\<close>

type_synonym addr = nat

datatype jsval = JUndefined | JNull | JBool bool | JNum int | JStr string | JRef addr

text \<open>
  A property key is a name or an array index.  The host identifies the index \<open>i\<close> with
  its decimal string; the model keeps the two apart and never stores a decimal string under
  \<open>Name\<close>.
\<close>

datatype pkey = Name string | Idx nat

text \<open>
  What a statement of the source can throw: the host's \<^verbatim>\<open>TypeError\<close> (property access
  on \<^verbatim>\<open>undefined\<close> or \<^verbatim>\<open>null\<close>, call of a value that is not callable), the
  \<^verbatim>\<open>URIError\<close> of \<^verbatim>\<open>decodeURIComponent\<close>, the \<^verbatim>\<open>InvalidCharacterError\<close> of
  \<^verbatim>\<open>btoa\<close>, and an exception thrown by a function of the instrumented program
  (\<open>Thrown\<close>).  \<open>Unmodelled\<close> marks the two places where the source leaves the
  fragment of the host that is modelled here (a loop bound that is a string or an object,
  and the body of an installed wrapper run as a method).
\<close>

datatype error = TypeError | URIError | InvalidCharacterError | Thrown | Unmodelled

text \<open>
  What a function object does when the analysis calls it as a method without arguments:
  a function of the instrumented program returns a string or throws; the host's
  \<^verbatim>\<open>Object.prototype.toString\<close>; the \<^verbatim>\<open>toString\<close> of the prototypes of strings,
  numbers and booleans; the replaced \<^verbatim>\<open>Function.prototype.toString\<close> of
  part_002:1139; and the three wrappers the hooks install, each holding the original it
  captured (\<^verbatim>\<open>temp_finalize\<close>, \<^verbatim>\<open>temp_encrypt\<close>, \<^verbatim>\<open>temp_decrypt\<close>).
\<close>

datatype fbody =
    Returns string
  | Throws
  | ObjectToString
  | ThisToString
  | HookedToString
  | FinalizeHook jsval
  | EncryptHook jsval
  | DecryptHook jsval

text \<open>
  An object is an ordinary object, an array of integral numbers (the word buffers of the
  target library), or a function with its native source text and its body.
\<close>

datatype okind = Plain | WordArr "int list" | Fn string fbody

record obj =
  props :: "pkey \<Rightarrow> jsval option"
  proto :: jsval
  kind :: okind

type_synonym heap = "addr \<Rightarrow> obj"

text \<open>The built-in prototype objects of the host.\<close>

record realm =
  objProto :: addr
  funProto :: addr
  numProto :: addr
  strProto :: addr
  boolProto :: addr

definition truthy :: "jsval \<Rightarrow> bool" where
  "truthy v = (case v of
      JUndefined \<Rightarrow> False
    | JNull \<Rightarrow> False
    | JBool b \<Rightarrow> b
    | JNum n \<Rightarrow> n \<noteq> 0
    | JStr s \<Rightarrow> s \<noteq> []
    | JRef a \<Rightarrow> True)"

definition typeof :: "heap \<Rightarrow> jsval \<Rightarrow> string" where
  "typeof h v = (case v of
      JUndefined \<Rightarrow> ''undefined''
    | JNull \<Rightarrow> ''object''
    | JBool b \<Rightarrow> ''boolean''
    | JNum n \<Rightarrow> ''number''
    | JStr s \<Rightarrow> ''string''
    | JRef a \<Rightarrow> (case kind (h a) of Fn src body \<Rightarrow> ''function'' | _ \<Rightarrow> ''object''))"

section \<open>Key-length classification\<close>

text \<open>
  part_002:1170 \<^verbatim>\<open>get_sigBytes\<close>.  The \<^verbatim>\<open>switch\<close> compares with strict equality, so
  only the numbers 8, 16, 24 and 32 are classified.  The default label is the two-character
  Chinese word for "unknown" (U+672A U+77E5), written here as its UTF-8 bytes.
\<close>

definition unknown_label :: string where
  "unknown_label = [CHR 0xE6, CHR 0x9C, CHR 0xAA, CHR 0xE7, CHR 0x9F, CHR 0xA5]"

definition get_sigBytes :: "jsval \<Rightarrow> string" where
  "get_sigBytes sz =
     (if sz = JNum 8 then ''64bits''
      else if sz = JNum 16 then ''128bits''
      else if sz = JNum 24 then ''192bits''
      else if sz = JNum 32 then ''256bits''
      else unknown_label)"

section \<open>Word arrays to hex\<close>

text \<open>
  \<^verbatim>\<open>Number.prototype.toString(16)\<close> on a natural number: lower-case digits, no padding.
\<close>

definition hexDigit :: "nat \<Rightarrow> char" where
  "hexDigit d = ''0123456789abcdef'' ! (d mod 16)"

fun toString16 :: "nat \<Rightarrow> string" where
  "toString16 n = (if n < 16 then [hexDigit n] else toString16 (n div 16) @ [hexDigit (n mod 16)])"

declare toString16.simps [simp del]

text \<open>
  \<^verbatim>\<open>words[i >>> 2]\<close> converted by the shift operator: the element as an unsigned 32-bit
  word, and 0 when the index is beyond the end (the host reads \<^verbatim>\<open>undefined\<close> there and
  \<^verbatim>\<open>undefined >>> k\<close> is 0).  The index itself is \<open>i\<close> taken as an unsigned 32-bit
  word and shifted right by two.
\<close>

definition ushr2 :: "nat \<Rightarrow> nat" where
  "ushr2 i = unat (drop_bit 2 (word_of_nat i :: 32 word))"

definition word_at :: "int list \<Rightarrow> nat \<Rightarrow> 32 word" where
  "word_at ws k = (if k < length ws then word_of_int (ws ! k) else 0)"

definition byte_of :: "int list \<Rightarrow> nat \<Rightarrow> 32 word" where
  "byte_of ws i = drop_bit (24 - (i mod 4) * 8) (word_at ws (ushr2 i)) AND 0xff"

text \<open>
  The loop of part_002:1196: \<^verbatim>\<open>hexChars\<close> receives two one-character strings per byte.
\<close>

function wordsToHex_loop :: "int list \<Rightarrow> nat \<Rightarrow> nat \<Rightarrow> string list \<Rightarrow> string list" where
  "wordsToHex_loop ws sigBytes i hexChars =
     (if i < sigBytes then
        (let byte = byte_of ws i in
           wordsToHex_loop ws sigBytes (Suc i)
             (hexChars @ [toString16 (unat (drop_bit 4 byte)), toString16 (unat (byte AND 0x0f))]))
      else hexChars)"
  by pat_completeness auto
termination
  by (relation "measure (\<lambda>(ws, sigBytes, i, hexChars). sigBytes - i)") auto

declare wordsToHex_loop.simps [simp del]

text \<open>
  The bound of the loop \<^verbatim>\<open>i < sigBytes\<close>, for a bound that is not a string or an object:
  \<^verbatim>\<open>undefined\<close> is NaN (no iteration), \<^verbatim>\<open>null\<close> is 0, a boolean is 0 or 1.
\<close>

definition loop_bound :: "jsval \<Rightarrow> nat option" where
  "loop_bound v = (case v of
      JUndefined \<Rightarrow> Some 0
    | JNull \<Rightarrow> Some 0
    | JBool b \<Rightarrow> Some (if b then 1 else 0)
    | JNum n \<Rightarrow> Some (nat n)
    | JStr s \<Rightarrow> None
    | JRef a \<Rightarrow> None)"

text \<open>
  part_002:1193 \<^verbatim>\<open>wordsToHex\<close>.  \<^verbatim>\<open>Array.isArray\<close> holds of the array objects only.
\<close>

definition isArray :: "heap \<Rightarrow> jsval \<Rightarrow> bool" where
  "isArray h v = (case v of JRef a \<Rightarrow> (case kind (h a) of WordArr ws \<Rightarrow> True | _ \<Rightarrow> False) | _ \<Rightarrow> False)"

definition wordsToHex :: "heap \<Rightarrow> jsval \<Rightarrow> jsval \<Rightarrow> error + string" where
  "wordsToHex h words sigBytes =
     (if \<not> truthy words \<or> \<not> isArray h words then Inr ''''
      else (case words of
          JRef a \<Rightarrow> (case kind (h a) of
              WordArr ws \<Rightarrow> (case loop_bound sigBytes of
                  None \<Rightarrow> Inl Unmodelled
                | Some n \<Rightarrow> Inr (concat (wordsToHex_loop ws n 0 [])))
            | _ \<Rightarrow> Inr '''')
        | _ \<Rightarrow> Inr ''''))"

section \<open>Hex to base64\<close>

text \<open>
  \<^verbatim>\<open>parseInt(s, 16)\<close> as the host defines it: leading white space is skipped, a sign
  and a \<^verbatim>\<open>0x\<close> prefix are accepted, the longest run of hexadecimal digits is read, and
  the result is NaN (\<open>None\<close>) when that run is empty.
\<close>

definition is_ws :: "char \<Rightarrow> bool" where
  "is_ws c = ((of_char c :: nat) \<in> {9, 10, 11, 12, 13, 32, 160})"

definition is_hex :: "char \<Rightarrow> bool" where
  "is_hex c = (let n = (of_char c :: nat) in
     (48 \<le> n \<and> n \<le> 57) \<or> (97 \<le> n \<and> n \<le> 102) \<or> (65 \<le> n \<and> n \<le> 70))"

definition hexval :: "char \<Rightarrow> nat" where
  "hexval c = (let n = (of_char c :: nat) in
     if 48 \<le> n \<and> n \<le> 57 then n - 48
     else if 97 \<le> n \<and> n \<le> 102 then n - 87
     else n - 55)"

definition strip_sign :: "string \<Rightarrow> int \<times> string" where
  "strip_sign s = (case s of
      [] \<Rightarrow> (1, [])
    | c # r \<Rightarrow> if c = CHR ''-'' then (- 1, r) else if c = CHR ''+'' then (1, r) else (1, s))"

definition strip_0x :: "string \<Rightarrow> string" where
  "strip_0x s = (if take 2 s = ''0x'' \<or> take 2 s = ''0X'' then drop 2 s else s)"

definition parseInt16 :: "string \<Rightarrow> int option" where
  "parseInt16 s =
     (let (sign, s2) = strip_sign (dropWhile is_ws s);
          ds = takeWhile is_hex (strip_0x s2)
      in if ds = [] then None
         else Some (sign * int (foldl (\<lambda>acc c. acc * 16 + hexval c) 0 ds)))"

text \<open>
  The loop of part_002:1184: \<^verbatim>\<open>hex.substr(i, 2)\<close> for \<open>i = 0, 2, 4, ...\<close>; the last
  piece has one character when the length is odd.
\<close>

fun hex_bytes :: "string \<Rightarrow> int option list" where
  "hex_bytes [] = []"
| "hex_bytes [c] = [parseInt16 [c]]"
| "hex_bytes (c # d # r) = parseInt16 [c, d] # hex_bytes r"

text \<open>
  \<^verbatim>\<open>String.fromCharCode\<close> yields the code unit \<open>n mod 2^16\<close>, and 0 for NaN.
\<close>

definition fromCharCode :: "int option \<Rightarrow> nat" where
  "fromCharCode v = (case v of None \<Rightarrow> 0 | Some n \<Rightarrow> nat (n mod 65536))"

text \<open>
  The host's \<^verbatim>\<open>btoa\<close>: standard base64 (RFC 4648, alphabet \<^verbatim>\<open>A-Z a-z 0-9 + /\<close>, padded
  with \<^verbatim>\<open>=\<close>) of a string whose code units are all below 256, and an
  \<^verbatim>\<open>InvalidCharacterError\<close> otherwise.
\<close>

definition b64_alphabet :: string where
  "b64_alphabet = ''ABCDEFGHIJKLMNOPQRSTUVWXYZabcdefghijklmnopqrstuvwxyz0123456789+/''"

definition b64char :: "nat \<Rightarrow> char" where
  "b64char n = b64_alphabet ! (n mod 64)"

fun b64enc :: "nat list \<Rightarrow> string" where
  "b64enc [] = []"
| "b64enc [a] = [b64char (a div 4), b64char ((a mod 4) * 16), CHR ''='', CHR ''='']"
| "b64enc [a, b] =
     [b64char (a div 4), b64char ((a mod 4) * 16 + b div 16), b64char ((b mod 16) * 4), CHR ''='']"
| "b64enc (a # b # c # r) =
     [b64char (a div 4), b64char ((a mod 4) * 16 + b div 16),
      b64char ((b mod 16) * 4 + c div 64), b64char (c mod 64)] @ b64enc r"

definition btoa :: "nat list \<Rightarrow> error + string" where
  "btoa cs = (if list_all (\<lambda>c. c < 256) cs then Inr (b64enc cs) else Inl InvalidCharacterError)"

text \<open>
  part_002:1180 \<^verbatim>\<open>hexToBase64\<close>.  Whatever the \<^verbatim>\<open>try\<close> block throws is caught and the
  empty string returned.
\<close>

definition hexToBase64 :: "string \<Rightarrow> string" where
  "hexToBase64 hex =
     (if hex = [] then []
      else (case btoa (map fromCharCode (hex_bytes hex)) of
          Inr s \<Rightarrow> s
        | Inl e \<Rightarrow> []))"




section \<open>The raw string view\<close>

text \<open>
  \<^verbatim>\<open>hexKey.replace(/[0-9a-f]{2}/g, '%$&')\<close>: every non-overlapping pair of lower-case
  hexadecimal digits, found from the left, gets a percent sign in front.
\<close>

definition is_lhex :: "char \<Rightarrow> bool" where
  "is_lhex c = (let n = (of_char c :: nat) in (48 \<le> n \<and> n \<le> 57) \<or> (97 \<le> n \<and> n \<le> 102))"

fun pct_escape :: "string \<Rightarrow> string" where
  "pct_escape (c # d # r) =
     (if is_lhex c \<and> is_lhex d then CHR ''%'' # c # d # pct_escape r else c # pct_escape (d # r))"
| "pct_escape s = s"

text \<open>
  The host's \<^verbatim>\<open>decodeURIComponent\<close> (ECMAScript \<^verbatim>\<open>Decode\<close> with an empty reserved
  set).  The result is a list of UTF-16 code units.  An escape \<^verbatim>\<open>%XX\<close> below 0x80 is
  that character; a lead byte announces one to three continuation escapes, and the octets
  must be a valid UTF-8 encoding of a code point.  Anything else is a \<^verbatim>\<open>URIError\<close>.
\<close>

definition utf8_len :: "nat \<Rightarrow> nat" where
  "utf8_len b = (if b < 128 then 0 else if b < 192 then 1 else if b < 224 then 2
                 else if b < 240 then 3 else if b < 248 then 4 else 5)"

definition is_cont :: "nat \<Rightarrow> bool" where
  "is_cont b = (128 \<le> b \<and> b < 192)"

definition utf8_value :: "nat list \<Rightarrow> nat option" where
  "utf8_value bs = (case bs of
      [a, b] \<Rightarrow>
        (let v = (a - 192) * 64 + (b - 128)
         in if is_cont b \<and> 128 \<le> v then Some v else None)
    | [a, b, c] \<Rightarrow>
        (let v = (a - 224) * 4096 + (b - 128) * 64 + (c - 128)
         in if is_cont b \<and> is_cont c \<and> 2048 \<le> v \<and> \<not> (55296 \<le> v \<and> v \<le> 57343) then Some v else None)
    | [a, b, c, d] \<Rightarrow>
        (let v = (a - 240) * 262144 + (b - 128) * 4096 + (c - 128) * 64 + (d - 128)
         in if is_cont b \<and> is_cont c \<and> is_cont d \<and> 65536 \<le> v \<and> v \<le> 1114111 then Some v else None)
    | _ \<Rightarrow> None)"

definition utf16 :: "nat \<Rightarrow> nat list" where
  "utf16 v = (if v < 65536 then [v]
              else [55296 + (v - 65536) div 1024, 56320 + (v - 65536) mod 1024])"

definition prepend :: "nat list \<Rightarrow> error + nat list \<Rightarrow> error + nat list" where
  "prepend us x = (case x of Inl e \<Rightarrow> Inl e | Inr vs \<Rightarrow> Inr (us @ vs))"

text \<open>
  \<open>decode_from octs k s\<close>: \<open>k\<close> continuation escapes are still due for the octets \<open>octs\<close>
  read so far.
\<close>

fun decode_from :: "nat list \<Rightarrow> nat \<Rightarrow> string \<Rightarrow> error + nat list" where
  "decode_from octs 0 [] = Inr []"
| "decode_from octs (Suc k) [] = Inl URIError"
| "decode_from octs 0 (c # r) =
     (if c \<noteq> CHR ''%'' then prepend [of_char c] (decode_from [] 0 r)
      else (case r of
          h1 # h2 # r' \<Rightarrow>
            (if is_hex h1 \<and> is_hex h2 then
               (let b = 16 * hexval h1 + hexval h2; n = utf8_len b
                in if n = 0 then prepend [b] (decode_from [] 0 r')
                   else if n = 1 \<or> 4 < n then Inl URIError
                   else decode_from [b] (n - 1) r')
             else Inl URIError)
        | _ \<Rightarrow> Inl URIError))"
| "decode_from octs (Suc k) (c # r) =
     (if c \<noteq> CHR ''%'' then Inl URIError
      else (case r of
          h1 # h2 # r' \<Rightarrow>
            (if is_hex h1 \<and> is_hex h2 then
               (let octs' = octs @ [16 * hexval h1 + hexval h2]
                in if k = 0 then
                     (case utf8_value octs' of
                        None \<Rightarrow> Inl URIError
                      | Some v \<Rightarrow> prepend (utf16 v) (decode_from [] 0 r'))
                   else decode_from octs' k r')
             else Inl URIError)
        | _ \<Rightarrow> Inl URIError))"

definition decodeURIComponent :: "string \<Rightarrow> error + nat list" where
  "decodeURIComponent s = decode_from [] 0 s"

definition code_units :: "string \<Rightarrow> nat list" where
  "code_units s = map of_char s"

text \<open>
  A \<^verbatim>\<open>try { body } catch (e) { handler }\<close> statement on results: the handler runs on
  whatever the body throws.
\<close>

definition try_catch :: "error + 'a \<Rightarrow> (error \<Rightarrow> error + 'a) \<Rightarrow> error + 'a" where
  "try_catch body handler = (case body of Inl e \<Rightarrow> handler e | Inr v \<Rightarrow> Inr v)"

text \<open>
  part_002:1218, the \<^verbatim>\<open>try\<close> statement that computes \<^verbatim>\<open>strKey\<close>: the decoded text, or
  \<^verbatim>\<open>hexKey\<close> itself when the decoding throws.
\<close>

definition rawString :: "string \<Rightarrow> error + nat list" where
  "rawString hexKey =
     try_catch (decodeURIComponent (pct_escape hexKey)) (\<lambda>e. Inr (code_units hexKey))"

section \<open>Objects, prototypes and properties\<close>

text \<open>
  The own properties of an object.  An array has its elements and its \<^verbatim>\<open>length\<close>
  besides the properties stored in \<open>props\<close>.
\<close>

definition own_get :: "obj \<Rightarrow> pkey \<Rightarrow> jsval option" where
  "own_get ob k = (case kind ob of
      WordArr ws \<Rightarrow> (case k of
          Idx i \<Rightarrow> if i < length ws then Some (JNum (ws ! i)) else props ob k
        | Name n \<Rightarrow> if n = ''length'' then Some (JNum (int (length ws))) else props ob k)
    | _ \<Rightarrow> props ob k)"

text \<open>
  The prototype chain of an object, the object first.  Objects are numbered after their
  prototypes (the host keeps chains acyclic, and an acyclic heap can always be numbered
  so); a link that does not go down ends the chain.
\<close>

function chain :: "heap \<Rightarrow> addr \<Rightarrow> addr list" where
  "chain h a = a # (case proto (h a) of JRef p \<Rightarrow> if p < a then chain h p else [] | _ \<Rightarrow> [])"
  by pat_completeness auto
termination
  by (relation "measure (\<lambda>(h, a). a)") auto

declare chain.simps [simp del]

text \<open>
  \<^verbatim>\<open>__proto__\<close> is an accessor that \<^verbatim>\<open>Object.prototype\<close> owns: read through an object
  that inherits it, it yields that object's prototype.
\<close>

definition own_has :: "realm \<Rightarrow> heap \<Rightarrow> addr \<Rightarrow> pkey \<Rightarrow> bool" where
  "own_has r h a k = (own_get (h a) k \<noteq> None \<or> (a = objProto r \<and> k = Name ''__proto__''))"

text \<open>
  \<open>lookup r h rp as k\<close>: the value of \<open>k\<close> found along the chain \<open>as\<close>, for a receiver
  whose prototype is \<open>rp\<close>; \<^verbatim>\<open>undefined\<close> when no object of the chain has it.
\<close>

fun lookup :: "realm \<Rightarrow> heap \<Rightarrow> jsval \<Rightarrow> addr list \<Rightarrow> pkey \<Rightarrow> jsval" where
  "lookup r h rp [] k = JUndefined"
| "lookup r h rp (b # bs) k = (case own_get (h b) k of
      Some v \<Rightarrow> v
    | None \<Rightarrow> if b = objProto r \<and> k = Name ''__proto__'' then rp else lookup r h rp bs k)"

definition obj_get :: "realm \<Rightarrow> heap \<Rightarrow> addr \<Rightarrow> pkey \<Rightarrow> jsval" where
  "obj_get r h a k = lookup r h (proto (h a)) (chain h a) k"

text \<open>The \<^verbatim>\<open>in\<close> operator on an object.\<close>

definition has_prop :: "realm \<Rightarrow> heap \<Rightarrow> addr \<Rightarrow> pkey \<Rightarrow> bool" where
  "has_prop r h a k = list_ex (\<lambda>b. own_has r h b k) (chain h a)"

text \<open>The own properties of a string: its characters and its length.\<close>

definition str_own :: "string \<Rightarrow> pkey \<Rightarrow> jsval option" where
  "str_own s k = (case k of
      Idx i \<Rightarrow> if i < length s then Some (JStr [s ! i]) else None
    | Name n \<Rightarrow> if n = ''length'' then Some (JNum (int (length s))) else None)"

definition prim_get :: "realm \<Rightarrow> heap \<Rightarrow> addr \<Rightarrow> pkey \<Rightarrow> jsval" where
  "prim_get r h p k = lookup r h (JRef p) (chain h p) k"

text \<open>
  Reading a property of any value, \<^verbatim>\<open>v[k]\<close>: a \<^verbatim>\<open>TypeError\<close> on \<^verbatim>\<open>undefined\<close> and
  \<^verbatim>\<open>null\<close>; a primitive reads through the prototype of its kind.  Properties are data
  properties: the model has no getters and no proxies.
\<close>

definition get_v :: "realm \<Rightarrow> heap \<Rightarrow> jsval \<Rightarrow> pkey \<Rightarrow> error + jsval" where
  "get_v r h v k = (case v of
      JUndefined \<Rightarrow> Inl TypeError
    | JNull \<Rightarrow> Inl TypeError
    | JBool b \<Rightarrow> Inr (prim_get r h (boolProto r) k)
    | JNum n \<Rightarrow> Inr (prim_get r h (numProto r) k)
    | JStr s \<Rightarrow> Inr (case str_own s k of Some x \<Rightarrow> x | None \<Rightarrow> prim_get r h (strProto r) k)
    | JRef a \<Rightarrow> Inr (obj_get r h a k))"

text \<open>\<^verbatim>\<open>Object.hasOwn(v, k)\<close>: a \<^verbatim>\<open>TypeError\<close> on \<^verbatim>\<open>undefined\<close> and \<^verbatim>\<open>null\<close>.\<close>

definition hasOwn :: "realm \<Rightarrow> heap \<Rightarrow> jsval \<Rightarrow> pkey \<Rightarrow> error + bool" where
  "hasOwn r h v k = (case v of
      JUndefined \<Rightarrow> Inl TypeError
    | JNull \<Rightarrow> Inl TypeError
    | JBool b \<Rightarrow> Inr False
    | JNum n \<Rightarrow> Inr False
    | JStr s \<Rightarrow> Inr (str_own s k \<noteq> None)
    | JRef a \<Rightarrow> Inr (own_has r h a k))"

text \<open>An assignment \<^verbatim>\<open>o[k] = v\<close> to an object that owns \<open>k\<close> as a writable property.\<close>

definition set_prop :: "heap \<Rightarrow> addr \<Rightarrow> pkey \<Rightarrow> jsval \<Rightarrow> heap" where
  "set_prop h a k v = h(a := (h a)\<lparr>props := (props (h a))(k \<mapsto> v)\<rparr>)"

section \<open>The concealment registry\<close>

text \<open>
  The state the hooks work on: the heap, the next free address, and \<^verbatim>\<open>_nativeMap\<close>
  (part_002:1126), a weak map from wrapper objects to the values registered as their
  originals.
\<close>

record state =
  heap :: heap
  nxt :: addr
  registry :: "addr \<Rightarrow> jsval option"

text \<open>\<^verbatim>\<open>_nativeMap.has(v)\<close>: only objects are keys.\<close>

definition nativeMap_has :: "state \<Rightarrow> jsval \<Rightarrow> bool" where
  "nativeMap_has st v = (case v of JRef a \<Rightarrow> registry st a \<noteq> None | _ \<Rightarrow> False)"

text \<open>
  The host's own \<^verbatim>\<open>Function.prototype.toString\<close>, kept as \<^verbatim>\<open>_toString\<close>: the source
  text of a function, a \<^verbatim>\<open>TypeError\<close> on anything else.
\<close>

definition native_toString :: "heap \<Rightarrow> jsval \<Rightarrow> error + string" where
  "native_toString h v = (case v of
      JRef a \<Rightarrow> (case kind (h a) of Fn src body \<Rightarrow> Inr src | _ \<Rightarrow> Inl TypeError)
    | _ \<Rightarrow> Inl TypeError)"

text \<open>part_002:1139, the replacement of \<^verbatim>\<open>Function.prototype.toString\<close>.\<close>

definition toString_hook :: "state \<Rightarrow> jsval \<Rightarrow> error + string" where
  "toString_hook st this =
     (if nativeMap_has st this then
        (case this of
           JRef a \<Rightarrow> (case registry st a of
               Some orig \<Rightarrow> native_toString (heap st) orig
             | None \<Rightarrow> native_toString (heap st) this)
         | _ \<Rightarrow> native_toString (heap st) this)
      else native_toString (heap st) this)"

text \<open>
  part_002:1129 \<^verbatim>\<open>makeNative\<close>.  Reading \<^verbatim>\<open>originalFunc.name\<close> throws when the original
  is \<^verbatim>\<open>undefined\<close> or \<^verbatim>\<open>null\<close>; the \<^verbatim>\<open>try\<close> block then leaves both properties as
  they were.  The registration follows in either case.
\<close>

definition makeNative :: "realm \<Rightarrow> state \<Rightarrow> addr \<Rightarrow> jsval \<Rightarrow> state" where
  "makeNative r st hookFunc originalFunc =
     (let h = heap st;
          h' = (case (get_v r h originalFunc (Name ''name''), get_v r h originalFunc (Name ''length'')) of
                  (Inr n, Inr l) \<Rightarrow> set_prop (set_prop h hookFunc (Name ''name'') n) hookFunc (Name ''length'') l
                | _ \<Rightarrow> h)
      in st\<lparr>heap := h', registry := (registry st)(hookFunc \<mapsto> originalFunc)\<rparr>)"

section \<open>Calling methods of the instrumented program\<close>

text \<open>The host's \<^verbatim>\<open>Object.prototype.toString\<close> (without \<^verbatim>\<open>Symbol.toStringTag\<close>).\<close>

definition objectToString :: "heap \<Rightarrow> jsval \<Rightarrow> string" where
  "objectToString h v = (case v of
      JUndefined \<Rightarrow> ''[object Undefined]''
    | JNull \<Rightarrow> ''[object Null]''
    | JBool b \<Rightarrow> ''[object Boolean]''
    | JNum n \<Rightarrow> ''[object Number]''
    | JStr s \<Rightarrow> ''[object String]''
    | JRef a \<Rightarrow> (case kind (h a) of
          Plain \<Rightarrow> ''[object Object]''
        | WordArr ws \<Rightarrow> ''[object Array]''
        | Fn src body \<Rightarrow> ''[object Function]''))"

text \<open>
  The \<^verbatim>\<open>toString\<close> of \<^verbatim>\<open>String.prototype\<close>, \<^verbatim>\<open>Number.prototype\<close> and
  \<^verbatim>\<open>Boolean.prototype\<close>: the text of a primitive receiver, a \<^verbatim>\<open>TypeError\<close> on any other.
\<close>

fun dec_digits :: "nat \<Rightarrow> string" where
  "dec_digits n = (if n < 10 then [hexDigit n] else dec_digits (n div 10) @ [hexDigit (n mod 10)])"

declare dec_digits.simps [simp del]

definition thisToString :: "jsval \<Rightarrow> error + string" where
  "thisToString v = (case v of
      JStr s \<Rightarrow> Inr s
    | JBool b \<Rightarrow> Inr (if b then ''true'' else ''false'')
    | JNum n \<Rightarrow> Inr (if n < 0 then CHR ''-'' # dec_digits (nat (- n)) else dec_digits (nat n))
    | _ \<Rightarrow> Inl TypeError)"

text \<open>
  \<open>call r st f this\<close>: the analysis calls the value \<open>f\<close> as a method of \<open>this\<close>, without
  arguments.  A value that is not a function is not callable.  The body of an installed
  wrapper calls through to the original it captured, whose effect on the program is not
  part of this model.
\<close>

definition call :: "realm \<Rightarrow> state \<Rightarrow> jsval \<Rightarrow> jsval \<Rightarrow> error + string" where
  "call r st f this = (case f of
      JRef a \<Rightarrow> (case kind (heap st a) of
          Fn src body \<Rightarrow> (case body of
              Returns s \<Rightarrow> Inr s
            | Throws \<Rightarrow> Inl Thrown
            | ObjectToString \<Rightarrow> Inr (objectToString (heap st) this)
            | ThisToString \<Rightarrow> thisToString this
            | HookedToString \<Rightarrow> toString_hook st this
            | FinalizeHook orig \<Rightarrow> Inl Unmodelled
            | EncryptHook orig \<Rightarrow> Inl Unmodelled
            | DecryptHook orig \<Rightarrow> Inl Unmodelled)
        | _ \<Rightarrow> Inl TypeError)
    | _ \<Rightarrow> Inl TypeError)"

text \<open>Sequencing of statements that can throw.\<close>

definition bindE :: "error + 'a \<Rightarrow> ('a \<Rightarrow> error + 'b) \<Rightarrow> error + 'b" where
  "bindE m f = (case m of Inl e \<Rightarrow> Inl e | Inr v \<Rightarrow> f v)"

text \<open>\<^verbatim>\<open>v.toString()\<close>: the method is looked up on \<open>v\<close> and called on it.\<close>

definition call_toString :: "realm \<Rightarrow> state \<Rightarrow> jsval \<Rightarrow> error + string" where
  "call_toString r st v = bindE (get_v r (heap st) v (Name ''toString'')) (\<lambda>f. call r st f v)"

section \<open>The material extractor\<close>

record keydata =
  kd_string :: "nat list"
  kd_hex :: string
  kd_base64 :: string

text \<open>
  part_002:1204 \<^verbatim>\<open>formatKey\<close>.  The fields \<^verbatim>\<open>string\<close>, \<^verbatim>\<open>hex\<close> and \<^verbatim>\<open>base64\<close> of
  the result are \<open>kd_string\<close> (as code units), \<open>kd_hex\<close> and \<open>kd_base64\<close>.  The method
  \<^verbatim>\<open>toString\<close> is called twice when its first result is not \<^verbatim>\<open>"[object Object]"\<close>.
\<close>

definition words_hex :: "realm \<Rightarrow> state \<Rightarrow> jsval \<Rightarrow> error + string" where
  "words_hex r st keyObj =
     bindE (get_v r (heap st) keyObj (Name ''words'')) (\<lambda>w.
       if truthy w then
         bindE (get_v r (heap st) keyObj (Name ''sigBytes'')) (\<lambda>sb.
           if truthy sb then wordsToHex (heap st) w sb else Inr [])
       else Inr [])"

definition formatKey :: "realm \<Rightarrow> state \<Rightarrow> jsval \<Rightarrow> error + keydata" where
  "formatKey r st keyObj =
     (if \<not> truthy keyObj then Inr \<lparr>kd_string = [], kd_hex = [], kd_base64 = []\<rparr>
      else
        bindE (bindE (get_v r (heap st) keyObj (Name ''toString'')) (\<lambda>ts.
                 if truthy ts then
                   bindE (call r st ts keyObj) (\<lambda>s.
                     if s \<noteq> ''[object Object]'' then call_toString r st keyObj
                     else words_hex r st keyObj)
                 else words_hex r st keyObj)) (\<lambda>hexKey.
        bindE (rawString hexKey) (\<lambda>strKey.
          Inr \<lparr>kd_string = strKey, kd_hex = hexKey, kd_base64 = hexToBase64 hexKey\<rparr>)))"

section \<open>Structural shapes and the caller heuristics\<close>

text \<open>part_002:1152, 1161, 1356: an object (not a function) that has every listed property.\<close>

definition has_all :: "realm \<Rightarrow> heap \<Rightarrow> string list \<Rightarrow> jsval \<Rightarrow> bool" where
  "has_all r h requiredProps v =
     (truthy v \<and> typeof h v = ''object'' \<and>
      (case v of JRef a \<Rightarrow> list_all (\<lambda>p. has_prop r h a (Name p)) requiredProps | _ \<Rightarrow> False))"

definition hasEncryptProp :: "realm \<Rightarrow> heap \<Rightarrow> jsval \<Rightarrow> bool" where
  "hasEncryptProp r h v =
     has_all r h [''ciphertext'', ''key'', ''iv'', ''algorithm'', ''mode'', ''padding'', ''blockSize'', ''formatter''] v"

definition hasDecryptProp :: "realm \<Rightarrow> heap \<Rightarrow> jsval \<Rightarrow> bool" where
  "hasDecryptProp r h v = has_all r h [''sigBytes'', ''words''] v"

definition hasRSAProp :: "realm \<Rightarrow> heap \<Rightarrow> jsval \<Rightarrow> bool" where
  "hasRSAProp r h v =
     has_all r h [''constructor'', ''getPrivateBaseKey'', ''getPrivateBaseKeyB64'', ''getPrivateKey'',
       ''getPublicBaseKey'', ''getPublicBaseKeyB64'', ''getPublicKey'', ''parseKey'',
       ''parsePropertiesFrom''] v"

text \<open>\<^verbatim>\<open>s.indexOf(pat) !== -1\<close>.\<close>

fun contains :: "string \<Rightarrow> string \<Rightarrow> bool" where
  "contains pat [] = (pat = [])"
| "contains pat (c # cs) = (take (length pat) (c # cs) = pat \<or> contains pat cs)"

text \<open>
  The two regular expressions of part_002:1240, read from the left.  Every \<^verbatim>\<open>\s*\<close>,
  \<^verbatim>\<open>[\w$]*\<close> and \<^verbatim>\<open>[^)]*\<close> in them is followed by a character outside its class, so
  the longest run is the only one that can match and no backtracking is involved.
  \<^verbatim>\<open>\s\<close> on 8-bit characters is the white space of \<open>is_ws\<close>.
\<close>

definition skip_ws :: "string \<Rightarrow> string" where
  "skip_ws s = dropWhile is_ws s"

definition eat :: "string \<Rightarrow> string \<Rightarrow> string option" where
  "eat lit s = (if take (length lit) s = lit then Some (drop (length lit) s) else None)"

definition ident_start :: "char \<Rightarrow> bool" where
  "ident_start c = (let n = (of_char c :: nat) in
     (65 \<le> n \<and> n \<le> 90) \<or> (97 \<le> n \<and> n \<le> 122) \<or> c = CHR ''_'' \<or> c = CHR ''$'')"

definition ident_char :: "char \<Rightarrow> bool" where
  "ident_char c = (ident_start c \<or> (48 \<le> (of_char c :: nat) \<and> (of_char c :: nat) \<le> 57))"

text \<open>\<^verbatim>\<open>/^\s*function\s*\(\s*\)\s*\{/\<close>\<close>

definition rx_anon :: "string \<Rightarrow> bool" where
  "rx_anon s = (case eat ''function'' (skip_ws s) of
      None \<Rightarrow> False
    | Some s1 \<Rightarrow> (case eat ''('' (skip_ws s1) of
        None \<Rightarrow> False
      | Some s2 \<Rightarrow> (case eat '')'' (skip_ws s2) of
          None \<Rightarrow> False
        | Some s3 \<Rightarrow> eat ''{'' (skip_ws s3) \<noteq> None)))"

text \<open>\<^verbatim>\<open>/^\s*function(?:\s*)?\s*[A-Za-z_$][\w$]*\s*\([^)]*\)\s*\{/\<close>\<close>

definition rx_named :: "string \<Rightarrow> bool" where
  "rx_named s = (case eat ''function'' (skip_ws s) of
      None \<Rightarrow> False
    | Some s1 \<Rightarrow> (case skip_ws s1 of
        [] \<Rightarrow> False
      | c # s2 \<Rightarrow> ident_start c \<and>
          (case eat ''('' (skip_ws (dropWhile ident_char s2)) of
             None \<Rightarrow> False
           | Some s3 \<Rightarrow> (case eat '')'' (dropWhile (\<lambda>d. d \<noteq> CHR '')'') s3) of
               None \<Rightarrow> False
             | Some s4 \<Rightarrow> eat ''{'' (skip_ws s4) \<noteq> None))))"

section \<open>Log entries\<close>

text \<open>
  What the hooks print with \<^verbatim>\<open>console.log\<close>, one entry per call, in order.  The labels
  of the source are Chinese text; an entry names its label by its meaning: the two
  banners, the three views of the key and of the IV, the key length, the operation mode
  (\<^verbatim>\<open>processBlock\<close>), the padding and the ciphertext.
\<close>

datatype category = SYM_ENCRYPT | SYM_DECRYPT

datatype entry =
    Header category
  | KeyString "nat list"
  | KeyHex string
  | KeyBase64 string
  | IvString "nat list"
  | IvHex string
  | IvBase64 string
  | KeyLength string
  | OpMode jsval
  | PaddingMode jsval
  | CipherText string

text \<open>
  A run of statements that print and can throw: the entries printed, and the exception
  that ended the run or its value.  What was printed before an exception stays printed.
\<close>

type_synonym 'a logged = "entry list \<times> (error + 'a)"

definition retL :: "'a \<Rightarrow> 'a logged" where
  "retL v = ([], Inr v)"

definition liftL :: "error + 'a \<Rightarrow> 'a logged" where
  "liftL m = ([], m)"

definition emits :: "entry list \<Rightarrow> unit logged" where
  "emits es = (es, Inr ())"

definition bindL :: "'a logged \<Rightarrow> ('a \<Rightarrow> 'b logged) \<Rightarrow> 'b logged" where
  "bindL m f = (case m of
      (l, Inl e) \<Rightarrow> (l, Inl e)
    | (l, Inr v) \<Rightarrow> (case f v of (l', y) \<Rightarrow> (l @ l', y)))"

fun seqL :: "unit logged list \<Rightarrow> unit logged" where
  "seqL [] = retL ()"
| "seqL (m # ms) = bindL m (\<lambda>u. seqL ms)"

text \<open>\<^verbatim>\<open>try { body } catch (e) {}\<close> around statements that print.\<close>

definition swallowL :: "unit logged \<Rightarrow> unit logged" where
  "swallowL m = (fst m, Inr ())"

text \<open>\<^verbatim>\<open>arguments[i]\<close> of a hook: \<^verbatim>\<open>undefined\<close> beyond the arguments passed.\<close>

definition arg :: "jsval list \<Rightarrow> nat \<Rightarrow> jsval" where
  "arg args i = (if i < length args then args ! i else JUndefined)"

text \<open>\<^verbatim>\<open>a && b\<close> where both sides can throw and the result is used as a condition.\<close>

definition andE :: "error + bool \<Rightarrow> error + bool \<Rightarrow> error + bool" where
  "andE a b = bindE a (\<lambda>x. if x then b else Inr False)"

definition truthyE :: "error + jsval \<Rightarrow> error + bool" where
  "truthyE m = bindE m (\<lambda>v. Inr (truthy v))"

section \<open>The apply hook\<close>

text \<open>A chain of property reads \<^verbatim>\<open>v[k1][k2]...\<close>; the first failing read throws.\<close>

fun get_path :: "realm \<Rightarrow> heap \<Rightarrow> jsval \<Rightarrow> pkey list \<Rightarrow> error + jsval" where
  "get_path r h v [] = Inr v"
| "get_path r h v (k # ks) = bindE (get_v r h v k) (\<lambda>x. get_path r h x ks)"

definition log_key :: "keydata \<Rightarrow> unit logged" where
  "log_key kd = emits [KeyString (kd_string kd), KeyHex (kd_hex kd), KeyBase64 (kd_base64 kd)]"

definition log_iv :: "keydata \<Rightarrow> unit logged" where
  "log_iv kd = emits [IvString (kd_string kd), IvHex (kd_hex kd), IvBase64 (kd_base64 kd)]"

text \<open>
  part_002:1236, the test of the first branch.  Here and below \<open>a0\<close> and \<open>a1\<close> are
  \<^verbatim>\<open>arguments[0]\<close> (the receiver handed to the applied function) and \<^verbatim>\<open>arguments[1]\<close>
  (the container of its positional values).  The reads of \<open>a1\<close> cannot throw: \<open>a1\<close> has
  been tested to be an object.
\<close>

definition enc_cond :: "realm \<Rightarrow> heap \<Rightarrow> jsval list \<Rightarrow> bool" where
  "enc_cond r h args =
     (length args = 2 \<and> truthy (arg args 0) \<and> truthy (arg args 1) \<and>
      typeof h (arg args 1) = ''object'' \<and>
      get_v r h (arg args 1) (Name ''length'') = Inr (JNum 1) \<and>
      (case get_v r h (arg args 1) (Idx 0) of Inr x \<Rightarrow> hasEncryptProp r h x | Inl e \<Rightarrow> False))"

text \<open>part_002:1237 and 1280: the receiver owns \<^verbatim>\<open>$super\<close> and the container owns \<^verbatim>\<open>callee\<close>.\<close>

definition super_callee :: "realm \<Rightarrow> heap \<Rightarrow> jsval \<Rightarrow> jsval \<Rightarrow> error + bool" where
  "super_callee r h a0 a1 = andE (hasOwn r h a0 (Name ''$super'')) (hasOwn r h a1 (Name ''callee''))"

text \<open>part_002:1244 to 1274, the statements after the banner of the first branch.\<close>

definition enc_key :: "realm \<Rightarrow> state \<Rightarrow> jsval \<Rightarrow> unit logged" where
  "enc_key r st a1 =
     bindL (liftL (bindE (get_path r (heap st) a1 [Idx 0, Name ''key'']) (formatKey r st))) log_key"

definition enc_iv :: "realm \<Rightarrow> state \<Rightarrow> jsval \<Rightarrow> unit logged" where
  "enc_iv r st a1 =
     bindL (liftL (get_path r (heap st) a1 [Idx 0, Name ''iv''])) (\<lambda>iv.
       if truthy iv then bindL (liftL (formatKey r st iv)) log_iv else retL ())"

definition enc_keylen :: "realm \<Rightarrow> state \<Rightarrow> jsval \<Rightarrow> unit logged" where
  "enc_keylen r st a1 =
     bindL (liftL (get_path r (heap st) a1 [Idx 0, Name ''key''])) (\<lambda>key.
       bindL (liftL (andE (Inr (truthy key)) (hasOwn r (heap st) key (Name ''sigBytes'')))) (\<lambda>b.
         if b then
           bindL (liftL (get_v r (heap st) key (Name ''sigBytes''))) (\<lambda>sb. emits [KeyLength (get_sigBytes sb)])
         else retL ()))"

definition enc_mode :: "realm \<Rightarrow> state \<Rightarrow> jsval \<Rightarrow> unit logged" where
  "enc_mode r st a1 =
     bindL (liftL (get_path r (heap st) a1 [Idx 0, Name ''mode''])) (\<lambda>mode.
       bindL (liftL (andE (Inr (truthy mode)) (hasOwn r (heap st) mode (Name ''Encryptor'')))) (\<lambda>b.
         if b then
           bindL (liftL (get_path r (heap st) a1 [Idx 0, Name ''mode'', Name ''Encryptor'', Name ''processBlock'']))
             (\<lambda>pb. emits [OpMode pb])
         else retL ()))"

definition enc_padding :: "realm \<Rightarrow> state \<Rightarrow> jsval \<Rightarrow> unit logged" where
  "enc_padding r st a1 =
     bindL (liftL (get_path r (heap st) a1 [Idx 0, Name ''padding''])) (\<lambda>p.
       if truthy p then emits [PaddingMode p] else retL ())"

text \<open>
  \<^verbatim>\<open>arguments[0].$super.toString.call(arguments[1][0])\<close>, inside its \<^verbatim>\<open>try\<close>: the method
  found on \<^verbatim>\<open>$super\<close> runs on the container's value.
\<close>

definition enc_text :: "realm \<Rightarrow> state \<Rightarrow> jsval \<Rightarrow> jsval \<Rightarrow> unit logged" where
  "enc_text r st a0 a1 =
     swallowL
       (bindL (liftL (get_path r (heap st) a0 [Name ''$super'', Name ''toString''])) (\<lambda>f.
        bindL (liftL (get_v r (heap st) a1 (Idx 0))) (\<lambda>x.
        bindL (liftL (call r st f x)) (\<lambda>encrypt_text.
          if encrypt_text \<noteq> ''[object Object]'' then emits [CipherText encrypt_text] else retL ()))))"

definition enc_branch :: "realm \<Rightarrow> state \<Rightarrow> jsval \<Rightarrow> jsval \<Rightarrow> jsval \<Rightarrow> unit logged" where
  "enc_branch r st this a0 a1 =
     bindL (liftL (super_callee r (heap st) a0 a1)) (\<lambda>g.
       if g then
         bindL (liftL (call_toString r st this)) (\<lambda>callerStr.
           if contains ''function()'' callerStr \<or> rx_named callerStr \<or> rx_anon callerStr then
             seqL [emits [Header SYM_ENCRYPT], enc_key r st a1, enc_iv r st a1, enc_keylen r st a1,
                   enc_mode r st a1, enc_padding r st a1, enc_text r st a0 a1]
           else retL ())
       else retL ())"

text \<open>part_002:1279, the test of the second branch.\<close>

definition dec_cond :: "realm \<Rightarrow> heap \<Rightarrow> jsval list \<Rightarrow> bool" where
  "dec_cond r h args =
     (length args = 2 \<and> truthy (arg args 0) \<and> truthy (arg args 1) \<and>
      typeof h (arg args 1) = ''object'' \<and>
      get_v r h (arg args 1) (Name ''length'') = Inr (JNum 3) \<and>
      (case get_v r h (arg args 1) (Idx 1) of Inr x \<Rightarrow> hasDecryptProp r h x | Inl e \<Rightarrow> False))"

text \<open>part_002:1285 to 1303, the statements after the banner of the second branch.\<close>

definition dec_key :: "realm \<Rightarrow> state \<Rightarrow> jsval \<Rightarrow> unit logged" where
  "dec_key r st a1 =
     bindL (liftL (bindE (get_v r (heap st) a1 (Idx 1)) (formatKey r st))) log_key"

text \<open>
  part_002:1290.  The condition reads \<^verbatim>\<open>arguments[1][2][2][2]["iv"]\<close>, two index reads
  deeper than the value it then formats.
\<close>

definition dec_iv :: "realm \<Rightarrow> state \<Rightarrow> jsval \<Rightarrow> unit logged" where
  "dec_iv r st a1 =
     bindL (liftL (andE (bindE (get_v r (heap st) a1 (Idx 2)) (\<lambda>c. hasOwn r (heap st) c (Name ''iv'')))
                        (truthyE (get_path r (heap st) a1 [Idx 2, Idx 2, Idx 2, Name ''iv''])))) (\<lambda>b.
       if b then
         bindL (liftL (bindE (get_path r (heap st) a1 [Idx 2, Name ''iv'']) (formatKey r st))) log_iv
       else retL ())"

definition dec_mode :: "realm \<Rightarrow> state \<Rightarrow> jsval \<Rightarrow> unit logged" where
  "dec_mode r st a1 =
     bindL (liftL (andE (bindE (get_v r (heap st) a1 (Idx 2)) (\<lambda>c. hasOwn r (heap st) c (Name ''mode'')))
                        (truthyE (get_path r (heap st) a1 [Idx 2, Name ''mode''])))) (\<lambda>b.
       if b then
         bindL (liftL (get_path r (heap st) a1 [Idx 2, Name ''mode'', Name ''Encryptor'', Name ''processBlock'']))
           (\<lambda>pb. emits [OpMode pb])
       else retL ())"

definition dec_padding :: "realm \<Rightarrow> state \<Rightarrow> jsval \<Rightarrow> unit logged" where
  "dec_padding r st a1 =
     bindL (liftL (andE (bindE (get_v r (heap st) a1 (Idx 2)) (\<lambda>c. hasOwn r (heap st) c (Name ''padding'')))
                        (truthyE (get_path r (heap st) a1 [Idx 2, Name ''padding''])))) (\<lambda>b.
       if b then
         bindL (liftL (get_path r (heap st) a1 [Idx 2, Name ''padding''])) (\<lambda>p. emits [PaddingMode p])
       else retL ())"

definition dec_branch :: "realm \<Rightarrow> state \<Rightarrow> jsval \<Rightarrow> jsval \<Rightarrow> jsval \<Rightarrow> unit logged" where
  "dec_branch r st this a0 a1 =
     bindL (liftL (super_callee r (heap st) a0 a1)) (\<lambda>g.
       if g then
         bindL (liftL (andE (bindE (call_toString r st this) (\<lambda>s. Inr (\<not> contains ''function()'' s)))
                            (bindE (get_v r (heap st) a1 (Idx 0)) (\<lambda>d. Inr (d = JNum 2))))) (\<lambda>c.
           if c then
             seqL [emits [Header SYM_DECRYPT], dec_key r st a1, dec_iv r st a1, dec_mode r st a1,
                   dec_padding r st a1]
           else retL ())
       else retL ())"

text \<open>part_002:1308, the test of the third branch.\<close>

definition hash_cond :: "heap \<Rightarrow> jsval list \<Rightarrow> bool" where
  "hash_cond h args =
     (length args = 2 \<and> truthy (arg args 0) \<and> truthy (arg args 1) \<and>
      typeof h (arg args 0) = ''object'' \<and> typeof h (arg args 1) = ''object'')"

text \<open>
  A function expression of a hook is evaluated: a new function object named \<open>hookName\<close>
  without parameters.  It is then passed through \<^verbatim>\<open>makeNative\<close> with the original and
  assigned to the slot \<open>k\<close> of the object \<open>pp\<close>.
\<close>

definition new_function :: "realm \<Rightarrow> string \<Rightarrow> string \<Rightarrow> fbody \<Rightarrow> obj" where
  "new_function r hookName src body =
     \<lparr>props = [Name ''name'' \<mapsto> JStr hookName, Name ''length'' \<mapsto> JNum 0],
      proto = JRef (funProto r), kind = Fn src body\<rparr>"

definition install :: "realm \<Rightarrow> state \<Rightarrow> addr \<Rightarrow> pkey \<Rightarrow> obj \<Rightarrow> jsval \<Rightarrow> state" where
  "install r st pp k hook orig =
     (let w = nxt st;
          st1 = st\<lparr>heap := (heap st)(w := hook), nxt := Suc w\<rparr>;
          st2 = makeNative r st1 w orig
      in st2\<lparr>heap := set_prop (heap st2) pp k (JRef w)\<rparr>)"

text \<open>The source texts of the three wrappers, abbreviated to their first line.\<close>

definition finalizeHook_src :: string where
  "finalizeHook_src = ''function () { if (!(Object.hasOwn(this, init))) { [debug] } }''"

definition encryptHook_src :: string where
  "encryptHook_src = ''function () { let encrypt_text = temp_encrypt.bind(this, ...arguments)(); [debug] }''"

definition decryptHook_src :: string where
  "decryptHook_src = ''function () { let decrypt_text = temp_decrypt.bind(this, ...arguments)(); [debug] }''"

text \<open>
  part_002:1310, the condition inside the \<^verbatim>\<open>try\<close> of the third branch:
  \<^verbatim>\<open>a0.__proto__\<close> owns \<^verbatim>\<open>$super\<close> and \<^verbatim>\<open>_doFinalize\<close>, and
  \<^verbatim>\<open>a0.__proto__.__proto__\<close> owns \<^verbatim>\<open>finalize\<close>.
\<close>

definition finalize_cond :: "realm \<Rightarrow> heap \<Rightarrow> jsval \<Rightarrow> error + bool" where
  "finalize_cond r h a0 =
     andE (truthyE (get_v r h a0 (Name ''__proto__'')))
    (andE (bindE (get_v r h a0 (Name ''__proto__'')) (\<lambda>p. hasOwn r h p (Name ''$super'')))
    (andE (bindE (get_v r h a0 (Name ''__proto__'')) (\<lambda>p. hasOwn r h p (Name ''_doFinalize'')))
    (andE (truthyE (get_path r h a0 [Name ''__proto__'', Name ''__proto__'']))
          (bindE (get_path r h a0 [Name ''__proto__'', Name ''__proto__''])
             (\<lambda>pp. hasOwn r h pp (Name ''finalize''))))))"

text \<open>part_002:1312: the method is wrapped unless the slot holds a registered wrapper.\<close>

definition patch_finalize :: "realm \<Rightarrow> state \<Rightarrow> addr \<Rightarrow> state" where
  "patch_finalize r st pp =
     (let temp_finalize = obj_get r (heap st) pp (Name ''finalize'')
      in if \<not> nativeMap_has st temp_finalize then
           install r st pp (Name ''finalize'')
             (new_function r ''finalizeHook'' finalizeHook_src (FinalizeHook temp_finalize)) temp_finalize
         else st)"

text \<open>
  part_002:1309 to 1333, the \<^verbatim>\<open>try\<close> statement of the third branch.  It prints nothing
  and whatever it throws is caught.  An owner of \<^verbatim>\<open>finalize\<close> is an object, so the
  assignment goes to an object.
\<close>

definition hash_patch :: "realm \<Rightarrow> state \<Rightarrow> jsval \<Rightarrow> state" where
  "hash_patch r st a0 =
     (case finalize_cond r (heap st) a0 of
        Inr True \<Rightarrow>
          (case get_path r (heap st) a0 [Name ''__proto__'', Name ''__proto__''] of
             Inr (JRef pp) \<Rightarrow> patch_finalize r st pp
           | _ \<Rightarrow> st)
      | _ \<Rightarrow> st)"

text \<open>
  The analysis of part_002:1234 \<^verbatim>\<open>applyHook\<close>, everything before the last statement:
  what it prints, whether it throws, and the state it leaves.
\<close>

definition apply_analysis :: "realm \<Rightarrow> state \<Rightarrow> jsval \<Rightarrow> jsval list \<Rightarrow> unit logged \<times> state" where
  "apply_analysis r st this args =
     (if enc_cond r (heap st) args then (enc_branch r st this (arg args 0) (arg args 1), st)
      else if dec_cond r (heap st) args then (dec_branch r st this (arg args 0) (arg args 1), st)
      else if hash_cond (heap st) args then (retL (), hash_patch r st (arg args 0))
      else (retL (), st))"

text \<open>
  The unwrapped primitive (\<^verbatim>\<open>temp_apply\<close>, \<^verbatim>\<open>temp_call\<close>): it runs the function \<open>this\<close>
  of the instrumented program on the arguments and returns or throws, changing the state.
\<close>

type_synonym primitive = "state \<Rightarrow> jsval \<Rightarrow> jsval list \<Rightarrow> (error + jsval) \<times> state"

text \<open>
  \<^verbatim>\<open>applyHook\<close>: the analysis, then \<^verbatim>\<open>return temp_apply.call(this, ...arguments)\<close>.  An
  exception that leaves the analysis leaves the hook, and the primitive is not reached.
\<close>

definition applyHook :: "realm \<Rightarrow> primitive \<Rightarrow> state \<Rightarrow> jsval \<Rightarrow> jsval list \<Rightarrow> entry list \<times> (error + jsval) \<times> state" where
  "applyHook r temp_apply st this args =
     (case apply_analysis r st this args of
        ((logs, Inl e), st') \<Rightarrow> (logs, Inl e, st')
      | ((logs, Inr u), st') \<Rightarrow> (logs, temp_apply st' this args))"

section \<open>The call hook\<close>

text \<open>The \<^verbatim>\<open>in\<close> operator on a value: a \<^verbatim>\<open>TypeError\<close> unless the value is an object.\<close>

definition in_v :: "realm \<Rightarrow> heap \<Rightarrow> pkey \<Rightarrow> jsval \<Rightarrow> error + bool" where
  "in_v r h k v = (case v of JRef a \<Rightarrow> Inr (has_prop r h a k) | _ \<Rightarrow> Inl TypeError)"

text \<open>part_002:1368, the test of the only branch of \<^verbatim>\<open>callHook\<close>.\<close>

definition rsa_cond :: "realm \<Rightarrow> heap \<Rightarrow> jsval list \<Rightarrow> bool" where
  "rsa_cond r h args =
     (length args = 1 \<and> truthy (arg args 0) \<and>
      (case get_v r h (arg args 0) (Name ''__proto__'') of
         Inr p \<Rightarrow> truthy p \<and> typeof h p = ''object'' \<and> hasRSAProp r h p
       | Inl e \<Rightarrow> False))"

text \<open>part_002:1370, the condition inside the \<^verbatim>\<open>try\<close>.\<close>

definition crypt_cond :: "realm \<Rightarrow> heap \<Rightarrow> jsval \<Rightarrow> error + bool" where
  "crypt_cond r h a0 =
     andE (bindE (get_v r h a0 (Name ''__proto__'')) (in_v r h (Name ''__proto__'')))
    (andE (truthyE (get_path r h a0 [Name ''__proto__'', Name ''__proto__'']))
    (andE (bindE (get_path r h a0 [Name ''__proto__'', Name ''__proto__''])
             (\<lambda>pp. hasOwn r h pp (Name ''encrypt'')))
          (bindE (get_path r h a0 [Name ''__proto__'', Name ''__proto__''])
             (\<lambda>pp. hasOwn r h pp (Name ''decrypt'')))))"

text \<open>part_002:1373 and 1394: each method is wrapped unless the slot holds a registered wrapper.\<close>

definition patch_encrypt :: "realm \<Rightarrow> state \<Rightarrow> addr \<Rightarrow> state" where
  "patch_encrypt r st pp =
     (let temp_encrypt = obj_get r (heap st) pp (Name ''encrypt'')
      in if \<not> nativeMap_has st temp_encrypt then
           install r st pp (Name ''encrypt'')
             (new_function r ''encryptHook'' encryptHook_src (EncryptHook temp_encrypt)) temp_encrypt
         else st)"

definition patch_decrypt :: "realm \<Rightarrow> state \<Rightarrow> addr \<Rightarrow> state" where
  "patch_decrypt r st pp =
     (let temp_decrypt = obj_get r (heap st) pp (Name ''decrypt'')
      in if \<not> nativeMap_has st temp_decrypt then
           install r st pp (Name ''decrypt'')
             (new_function r ''decryptHook'' decryptHook_src (DecryptHook temp_decrypt)) temp_decrypt
         else st)"

definition call_analysis :: "realm \<Rightarrow> state \<Rightarrow> jsval list \<Rightarrow> state" where
  "call_analysis r st args =
     (if rsa_cond r (heap st) args then
        (case crypt_cond r (heap st) (arg args 0) of
           Inr True \<Rightarrow>
             (case get_path r (heap st) (arg args 0) [Name ''__proto__'', Name ''__proto__''] of
                Inr (JRef pp) \<Rightarrow> patch_decrypt r (patch_encrypt r st pp) pp
              | _ \<Rightarrow> st)
         | _ \<Rightarrow> st)
      else st)"

text \<open>
  part_002:1367 \<^verbatim>\<open>callHook\<close>: the analysis, which prints nothing and lets nothing out of
  its \<^verbatim>\<open>try\<close>, then \<^verbatim>\<open>return temp_call.bind(this, ...arguments)()\<close>.
\<close>

definition callHook :: "realm \<Rightarrow> primitive \<Rightarrow> state \<Rightarrow> jsval \<Rightarrow> jsval list \<Rightarrow> entry list \<times> (error + jsval) \<times> state" where
  "callHook r temp_call st this args = ([], temp_call (call_analysis r st args) this args)"

section \<open>Concrete heaps\<close>

text \<open>
  Builders for the heaps on which the theorems below are instantiated.  A heap is given as
  the list of its objects, object \<open>a\<close> at position \<open>a\<close>.
\<close>

definition plain :: "(pkey \<times> jsval) list \<Rightarrow> jsval \<Rightarrow> obj" where
  "plain ps p = \<lparr>props = map_of ps, proto = p, kind = Plain\<rparr>"

definition func :: "string \<Rightarrow> string \<Rightarrow> fbody \<Rightarrow> jsval \<Rightarrow> obj" where
  "func name src body p =
     \<lparr>props = map_of [(Name ''name'', JStr name), (Name ''length'', JNum 0)], proto = p, kind = Fn src body\<rparr>"

definition word_array :: "int list \<Rightarrow> jsval \<Rightarrow> obj" where
  "word_array ws p = \<lparr>props = Map.empty, proto = p, kind = WordArr ws\<rparr>"

definition heap_of :: "obj list \<Rightarrow> heap" where
  "heap_of os a = (if a < length os then os ! a else plain [] JNull)"

text \<open>
  The built-in objects, at the addresses 0 to 7: \<^verbatim>\<open>Object.prototype\<close>,
  \<^verbatim>\<open>Function.prototype\<close>, \<^verbatim>\<open>Object.prototype.toString\<close>, the replaced
  \<^verbatim>\<open>Function.prototype.toString\<close>, the prototypes of numbers, strings and booleans, and
  their \<^verbatim>\<open>toString\<close>.
\<close>

definition realm0 :: realm where
  "realm0 = \<lparr>objProto = 0, funProto = 1, numProto = 4, strProto = 5, boolProto = 6\<rparr>"

definition builtins :: "obj list" where
  "builtins =
    [plain [(Name ''toString'', JRef 2)] JNull,
     (func [] ''function () { [native code] }'' (Returns []) (JRef 0))
       \<lparr>props := map_of [(Name ''toString'', JRef 3), (Name ''name'', JStr []), (Name ''length'', JNum 0)]\<rparr>,
     func ''toString'' ''function toString() { [native code] }'' ObjectToString (JRef 1),
     func ''toString'' ''function toString() { [native code] }'' HookedToString (JRef 1),
     plain [(Name ''toString'', JRef 7)] (JRef 0),
     plain [(Name ''toString'', JRef 7)] (JRef 0),
     plain [(Name ''toString'', JRef 7)] (JRef 0),
     func ''toString'' ''function toString() { [native code] }'' ThisToString (JRef 1)]"

text \<open>A primitive whose applied function returns \<^verbatim>\<open>undefined\<close> and changes nothing.\<close>

definition returns_undefined :: primitive where
  "returns_undefined st this args = (Inr JUndefined, st)"

text \<open>
  A symmetric decryption as the target library issues it: \<^verbatim>\<open>init.apply(instance, arguments)\<close>
  with \<^verbatim>\<open>arguments = [2, key, cfg]\<close>.  Object 9 is the cipher instance (it owns
  \<^verbatim>\<open>$super\<close>), 11 the key (a word buffer of 16 bytes), 14 the configuration, 15 the
  applied function and 16 the arguments object.  The configuration is a parameter.
\<close>

definition dec_objs :: "obj \<Rightarrow> obj list" where
  "dec_objs cfg = builtins @
    [plain [] (JRef 0),
     plain [(Name ''$super'', JRef 8)] (JRef 8),
     word_array [0x00010203, 0x04050607, 0x08090a0b, 0x0c0d0e0f] (JRef 0),
     plain [(Name ''sigBytes'', JNum 16), (Name ''words'', JRef 10)] (JRef 0),
     word_array [0x61626364, 0x65666768, 0x696a6b6c, 0x6d6e6f70] (JRef 0),
     plain [(Name ''sigBytes'', JNum 16), (Name ''words'', JRef 12)] (JRef 0),
     cfg,
     func [] ''function (xformMode, key, cfg) { this.cfg = this.cfg.extend(cfg); }'' (Returns []) (JRef 1),
     plain [(Idx 0, JNum 2), (Idx 1, JRef 11), (Idx 2, JRef 14), (Name ''length'', JNum 3),
            (Name ''callee'', JRef 15)] (JRef 0)]"

definition dec_state :: "obj \<Rightarrow> state" where
  "dec_state cfg = \<lparr>heap = heap_of (dec_objs cfg), nxt = 17, registry = Map.empty\<rparr>"

text \<open>The configuration \<^verbatim>\<open>{iv: iv}\<close> of a decryption with an IV, and the empty one.\<close>

definition cfg_iv :: obj where
  "cfg_iv = plain [(Name ''iv'', JRef 13)] (JRef 0)"

definition cfg_empty :: obj where
  "cfg_empty = plain [] (JRef 0)"

text \<open>
  Scenario A of the specification: \<^verbatim>\<open>init.apply(instance, arguments)\<close> where the one
  positional value (object 19) has the eight fields of the encrypt shape, its key has
  \<^verbatim>\<open>sigBytes = 16\<close>, and the applied function (object 20) is anonymous without
  parameters.
\<close>

definition enc_objs :: "obj list" where
  "enc_objs = builtins @
    [plain [] (JRef 0),
     plain [(Name ''$super'', JRef 8)] (JRef 8),
     word_array [0x00010203, 0x04050607, 0x08090a0b, 0x0c0d0e0f] (JRef 0),
     plain [(Name ''sigBytes'', JNum 16), (Name ''words'', JRef 10)] (JRef 0),
     word_array [0x61626364, 0x65666768, 0x696a6b6c, 0x6d6e6f70] (JRef 0),
     plain [(Name ''sigBytes'', JNum 16), (Name ''words'', JRef 12)] (JRef 0),
     plain [] (JRef 0),
     plain [] (JRef 0),
     plain [(Name ''Encryptor'', JRef 15)] (JRef 0),
     plain [] (JRef 0),
     plain [] (JRef 0),
     plain [(Name ''ciphertext'', JStr []), (Name ''key'', JRef 11), (Name ''iv'', JRef 13),
            (Name ''algorithm'', JRef 14), (Name ''mode'', JRef 16), (Name ''padding'', JRef 17),
            (Name ''blockSize'', JNum 4), (Name ''formatter'', JRef 18)] (JRef 0),
     func [] ''function () { this.reset(); }'' (Returns []) (JRef 1),
     plain [(Idx 0, JRef 19), (Name ''length'', JNum 1), (Name ''callee'', JRef 20)] (JRef 0)]"

definition enc_state :: state where
  "enc_state = \<lparr>heap = heap_of enc_objs, nxt = 22, registry = Map.empty\<rparr>"

text \<open>
  A hasher of the target library: object 12 is the instance, its prototype 10 owns
  \<^verbatim>\<open>$super\<close> and \<^verbatim>\<open>_doFinalize\<close>, and the prototype of that, object 9, owns the
  method \<^verbatim>\<open>finalize\<close> (object 8).  Object 13 is an empty arguments object and object 14
  the applied function.
\<close>

definition hash_objs :: "obj list" where
  "hash_objs = builtins @
    [func ''finalize'' ''function (messageUpdate) { if (messageUpdate) { this._append(messageUpdate); } }''
       (Returns []) (JRef 1),
     plain [(Name ''finalize'', JRef 8)] (JRef 0),
     plain [(Name ''$super'', JRef 9), (Name ''_doFinalize'', JRef 11)] (JRef 9),
     func ''_doFinalize'' ''function () { return this._hash; }'' (Returns []) (JRef 1),
     plain [] (JRef 10),
     plain [(Name ''length'', JNum 0), (Name ''callee'', JRef 14)] (JRef 0),
     func ''init'' ''function init(cfg) { this.reset(); }'' (Returns []) (JRef 1)]"

definition hash_state :: state where
  "hash_state = \<lparr>heap = heap_of hash_objs, nxt = 15, registry = Map.empty\<rparr>"



text \<open>
  The registration of part_002:1338, \<^verbatim>\<open>makeNative(applyHook, temp_apply)\<close>: object 8 is
  the host's \<^verbatim>\<open>Function.prototype.apply\<close> (named \<^verbatim>\<open>apply\<close>, two parameters) and object 9
  is \<^verbatim>\<open>applyHook\<close>.
\<close>

definition reg_objs :: "obj list" where
  "reg_objs = builtins @
    [(func ''apply'' ''function apply() { [native code] }'' (Returns []) (JRef 1))
       \<lparr>props := map_of [(Name ''name'', JStr ''apply''), (Name ''length'', JNum 2)]\<rparr>,
     func ''applyHook'' ''function () { if (arguments.length === 2) { [debug] } }'' (Returns []) (JRef 1)]"

definition reg_state :: state where
  "reg_state = \<lparr>heap = heap_of reg_objs, nxt = 10, registry = Map.empty\<rparr>"

section \<open>Lemmas on the hex extraction\<close>

lemma toString16_small: "n < 16 \<Longrightarrow> toString16 n = [hexDigit n]"
  by (simp add: toString16.simps)

lemma wordsToHex_loop_eq:
  "wordsToHex_loop ws n i acc = acc @ concat (map (\<lambda>j. [toString16 (unat (drop_bit 4 (byte_of ws j))), toString16 (unat (byte_of ws j AND 0x0f))]) [i..<n])"
proof (induction ws n i acc rule: wordsToHex_loop.induct)
  case (1 ws n i acc)
  show ?case
  proof (cases "i < n")
    case True
    then show ?thesis
      using "1.IH"[OF True refl] by (subst wordsToHex_loop.simps) (simp add: upt_rec[of i n] Let_def)
  next
    case False
    then show ?thesis by (subst wordsToHex_loop.simps) simp
  qed
qed

lemma byte_of_lt: "unat (byte_of ws i) < 256"
proof -
  have "byte_of ws i \<le> 0xff" unfolding byte_of_def by (rule word_and_le1)
  then show ?thesis by (simp add: word_le_nat_alt)
qed

lemma hi_nibble: "unat (drop_bit 4 (byte_of ws i)) = unat (byte_of ws i) div 16"
proof -
  have "unat (drop_bit 4 (byte_of ws i)) = drop_bit 4 (unat (byte_of ws i))"
    by (simp only: unat_drop_bit_eq)
  then show ?thesis by (simp add: drop_bit_eq_div)
qed

lemma lo_nibble: "unat (byte_of ws i AND 0x0f) = unat (byte_of ws i) mod 16"
proof -
  have "byte_of ws i AND 0x0f = take_bit 4 (byte_of ws i)"
    by (simp only: take_bit_eq_mask) (simp add: mask_eq_exp_minus_1)
  then have "unat (byte_of ws i AND 0x0f) = take_bit 4 (unat (byte_of ws i))"
    by (simp only: unsigned_take_bit_eq)
  then show ?thesis by (simp add: take_bit_eq_mod)
qed



lemma ushr2_div: "i < 2 ^ 32 \<Longrightarrow> ushr2 i = i div 4"
proof -
  assume a: "i < 2 ^ 32"
  have "unat (drop_bit 2 (word_of_nat i :: 32 word)) = drop_bit 2 (unat (word_of_nat i :: 32 word))"
    by (simp only: unat_drop_bit_eq)
  also have "unat (word_of_nat i :: 32 word) = i"
    using a by (simp add: unat_of_nat)
  finally show ?thesis by (simp add: ushr2_def drop_bit_eq_div)
qed

lemma and_ff_big_endian:
  "unat (drop_bit (24 - (i mod 4) * 8) w AND (0xff :: 32 word)) = (unat w div 2 ^ (8 * (3 - i mod 4))) mod 256"
proof -
  define k where "k = 24 - (i mod 4) * 8"
  have k: "k = 8 * (3 - i mod 4)" by (simp add: k_def)
  have "drop_bit k w AND 0xff = take_bit 8 (drop_bit k w)"
    by (simp only: take_bit_eq_mask) (simp add: mask_eq_exp_minus_1)
  then have "unat (drop_bit k w AND 0xff) = take_bit 8 (drop_bit k (unat w))"
    by (simp only: unsigned_take_bit_eq unat_drop_bit_eq)
  then show ?thesis
    unfolding k_def[symmetric] k[symmetric] by (simp add: take_bit_eq_mod drop_bit_eq_div)
qed

lemma wordsToHex_array:
  assumes "kind (h a) = WordArr ws"
  shows "wordsToHex h (JRef a) (JNum m) =
     Inr (concat (map (\<lambda>j. [hexDigit (unat (byte_of ws j) div 16), hexDigit (unat (byte_of ws j) mod 16)]) [0..<nat m]))"
proof -
  have lt: "unat (byte_of ws j) div 16 < 16" "unat (byte_of ws j) mod 16 < 16" for j
    using byte_of_lt[of ws j] by simp_all
  have "concat (wordsToHex_loop ws n 0 []) =
      concat (map (\<lambda>j. [hexDigit (unat (byte_of ws j) div 16), hexDigit (unat (byte_of ws j) mod 16)]) [0..<n])" for n
    unfolding wordsToHex_loop_eq hi_nibble lo_nibble
    by (induction n) (simp_all add: toString16_small lt)
  then show ?thesis
    using assms by (simp add: wordsToHex_def truthy_def isArray_def loop_bound_def)
qed



section \<open>The byte layout of the hex extraction\<close>

text \<open>
  Claim C3.  For a word array \<open>ws\<close> and every significant-byte count \<open>n\<close>, the hex text
  is the concatenation over \<open>i < n\<close> of the two digits of the byte \<open>byte_of ws i\<close>, the
  value of \<^verbatim>\<open>(words[i >>> 2] >>> (24 - (i % 4) * 8)) & 0xff\<close>.  For \<open>i\<close> below \<open>2^31\<close>,
  where \<^verbatim>\<open>i >> 2\<close> and the source's \<^verbatim>\<open>i >>> 2\<close> are both \<open>i div 4\<close>, this is
  \<^verbatim>\<open>(word[i>>2] >>> (24 - (i%4)*8)) & 0xFF\<close>; and it is the byte number \<open>i mod 4\<close>,
  counted from the most significant one, of its word: big-endian packing.  The instance
  below is the array \<^verbatim>\<open>[0x01020304]\<close> with three significant bytes, which yields
  \<^verbatim>\<open>"010203"\<close>.
\<close>

theorem C3_wordsToHex_layout:
  assumes "kind (h a) = WordArr ws"
  shows "wordsToHex h (JRef a) (JNum (int n)) =
           Inr (concat (map (\<lambda>i. [hexDigit (unat (byte_of ws i) div 16), hexDigit (unat (byte_of ws i) mod 16)])
                  [0..<n]))
         \<and> (\<forall>i < 2 ^ 31. byte_of ws i = drop_bit (24 - (i mod 4) * 8) (word_at ws (i div 4)) AND 0xff)
         \<and> (\<forall>i. unat (byte_of ws i) = (unat (word_at ws (ushr2 i)) div 2 ^ (8 * (3 - i mod 4))) mod 256)"
proof -
  have first: "wordsToHex h (JRef a) (JNum (int n)) =
           Inr (concat (map (\<lambda>i. [hexDigit (unat (byte_of ws i) div 16), hexDigit (unat (byte_of ws i) mod 16)])
                  [0..<n]))"
    using wordsToHex_array[of h a ws "int n"] assms by simp
  have second: "byte_of ws i = drop_bit (24 - (i mod 4) * 8) (word_at ws (i div 4)) AND 0xff"
    if "i < 2 ^ 31" for i
  proof -
    have "i < 2 ^ 32" using that by simp
    then show ?thesis by (simp add: byte_of_def ushr2_div)
  qed
  have third: "unat (byte_of ws i) = (unat (word_at ws (ushr2 i)) div 2 ^ (8 * (3 - i mod 4))) mod 256" for i
    unfolding byte_of_def by (rule and_ff_big_endian)
  from first second third show ?thesis by blast
qed

theorem C3_wordsToHex_layout_witness:
  "wordsToHex (heap_of [word_array [0x01020304] JNull]) (JRef 0) (JNum 3) = Inr ''010203''
   \<and> byte_of [0x01020304] 1 = drop_bit 16 (0x01020304 :: 32 word) AND 0xff"
proof -
  have k: "kind (heap_of [word_array [0x01020304] JNull] 0) = WordArr [0x01020304]"
    by (simp add: heap_of_def word_array_def)
  have u: "[0..<3] = [0, 1, 2]" by (simp add: upt_rec)
  have i: "(1::nat) < 2 ^ 31" by simp
  note t = C3_wordsToHex_layout[of "heap_of [word_array [0x01020304] JNull]" 0 "[0x01020304]" 3, OF k]
  from t i have b: "byte_of [0x01020304] 1 = drop_bit (24 - (1 mod 4) * 8) (word_at [0x01020304] (1 div 4)) AND 0xff"
    by blast
  from t have "wordsToHex (heap_of [word_array [0x01020304] JNull]) (JRef 0) (JNum (int 3)) =
           Inr (concat (map (\<lambda>i. [hexDigit (unat (byte_of [0x01020304] i) div 16),
                                     hexDigit (unat (byte_of [0x01020304] i) mod 16)]) [0..<3]))"
    by blast
  then have s: "wordsToHex (heap_of [word_array [0x01020304] JNull]) (JRef 0) (JNum 3) = Inr ''010203''"
    by (simp add: u byte_of_def ushr2_def word_at_def hexDigit_def)
  from b have "byte_of [0x01020304] 1 = drop_bit 16 (0x01020304 :: 32 word) AND 0xff"
    by (simp add: word_at_def)
  with s show ?thesis by simp
qed

section \<open>Totality of the hex extraction\<close>



section \<open>Lemmas on hex parsing and base64\<close>









section \<open>Hex to base64 and back\<close>



section \<open>Evaluation on concrete heaps\<close>

text \<open>
  The fields of the objects the builders make, and the definitions a concrete run of the
  hooks unfolds.
\<close>

lemma obj_simps:
  "props (plain ps p) = map_of ps" "proto (plain ps p) = p" "kind (plain ps p) = Plain"
  "props (func name src body p) = map_of [(Name ''name'', JStr name), (Name ''length'', JNum 0)]"
  "proto (func name src body p) = p" "kind (func name src body p) = Fn src body"
  "props (word_array ws p) = Map.empty" "proto (word_array ws p) = p" "kind (word_array ws p) = WordArr ws"
  by (simp_all add: plain_def func_def word_array_def)

lemma realm0_simps:
  "objProto realm0 = 0" "funProto realm0 = Suc 0" "numProto realm0 = 4" "strProto realm0 = 5"
  "boolProto realm0 = 6"
  by (simp_all add: realm0_def)

lemmas eval_defs = realm0_simps obj_simps
  returns_undefined_def applyHook_def apply_analysis_def enc_cond_def dec_cond_def hash_cond_def
  arg_def truthy_def typeof_def get_v_def obj_get_def prim_get_def chain.simps own_get_def own_has_def
  has_prop_def hasOwn_def str_own_def hasEncryptProp_def hasDecryptProp_def hasRSAProp_def has_all_def
  super_callee_def andE_def bindE_def bindL_def liftL_def retL_def emits_def truthyE_def swallowL_def
  call_toString_def call_def toString_hook_def nativeMap_has_def native_toString_def contains.simps
  log_key_def log_iv_def formatKey_def words_hex_def objectToString_def wordsToHex_def isArray_def
  loop_bound_def rx_anon_def rx_named_def skip_ws_def eat_def ident_start_def ident_char_def

lemmas crunch_defs = wordsToHex_loop.simps byte_of_def ushr2_def word_at_def toString16.simps hexDigit_def
  hexToBase64_def btoa_def fromCharCode_def parseInt16_def strip_sign_def strip_0x_def is_ws_def
  is_hex_def hexval_def b64char_def b64_alphabet_def rawString_def try_catch_def decodeURIComponent_def
  is_lhex_def utf8_len_def prepend_def utf8_value_def utf16_def is_cont_def code_units_def Let_def

section \<open>Concrete runs of the hooks\<close>

text \<open>
  The hex text, base64 text and raw string of the two 16-byte buffers used in the concrete
  heaps, the result of \<^verbatim>\<open>formatKey\<close> on an object that holds such a buffer, and the
  objects of the heaps.
\<close>

lemma key_hex: "concat (wordsToHex_loop [0x00010203, 0x04050607, 0x08090a0b, 0x0c0d0e0f] 16 0 [])
    = ''000102030405060708090a0b0c0d0e0f''"
  by (simp add: crunch_defs)

lemma key_views:
  "hexToBase64 ''000102030405060708090a0b0c0d0e0f'' = ''AAECAwQFBgcICQoLDA0ODw==''"
  "rawString ''000102030405060708090a0b0c0d0e0f'' = Inr [0, 1, 2, 3, 4, 5, 6, 7, 8, 9, 10, 11, 12, 13, 14, 15]"
  by (simp_all add: crunch_defs)

lemma iv_hex: "concat (wordsToHex_loop [0x61626364, 0x65666768, 0x696a6b6c, 0x6d6e6f70] 16 0 [])
    = ''6162636465666768696a6b6c6d6e6f70''"
  by (simp add: crunch_defs)

lemma iv_views:
  "hexToBase64 ''6162636465666768696a6b6c6d6e6f70'' = ''YWJjZGVmZ2hpamtsbW5vcA==''"
  "rawString ''6162636465666768696a6b6c6d6e6f70'' = Inr (code_units ''abcdefghijklmnop'')"
  by (simp_all add: crunch_defs)

lemma formatKey_buffer:
  assumes "get_v r (heap st) (JRef k) (Name ''toString'') = Inr ts" "truthy ts"
    and "call r st ts (JRef k) = Inr ''[object Object]''"
    and "get_v r (heap st) (JRef k) (Name ''words'') = Inr (JRef w)"
    and "get_v r (heap st) (JRef k) (Name ''sigBytes'') = Inr (JNum n)" "n \<noteq> 0"
    and "kind (heap st w) = WordArr ws"
    and "concat (wordsToHex_loop ws (nat n) 0 []) = hex"
    and "rawString hex = Inr s"
  shows "formatKey r st (JRef k) = Inr \<lparr>kd_string = s, kd_hex = hex, kd_base64 = hexToBase64 hex\<rparr>"
  using assms
  by (simp add: formatKey_def words_hex_def bindE_def truthy_def wordsToHex_def isArray_def loop_bound_def)

lemma enc_heap:
  "heap enc_state 0 = plain [(Name ''toString'', JRef 2)] JNull"
  "heap enc_state (Suc 0) = (func [] ''function () { [native code] }'' (Returns []) (JRef 0))
       \<lparr>props := map_of [(Name ''toString'', JRef 3), (Name ''name'', JStr []), (Name ''length'', JNum 0)]\<rparr>"
  "heap enc_state 2 = func ''toString'' ''function toString() { [native code] }'' ObjectToString (JRef 1)"
  "heap enc_state 3 = func ''toString'' ''function toString() { [native code] }'' HookedToString (JRef 1)"
  "heap enc_state 8 = plain [] (JRef 0)"
  "heap enc_state 9 = plain [(Name ''$super'', JRef 8)] (JRef 8)"
  "heap enc_state 10 = word_array [0x00010203, 0x04050607, 0x08090a0b, 0x0c0d0e0f] (JRef 0)"
  "heap enc_state 11 = plain [(Name ''sigBytes'', JNum 16), (Name ''words'', JRef 10)] (JRef 0)"
  "heap enc_state 12 = word_array [0x61626364, 0x65666768, 0x696a6b6c, 0x6d6e6f70] (JRef 0)"
  "heap enc_state 13 = plain [(Name ''sigBytes'', JNum 16), (Name ''words'', JRef 12)] (JRef 0)"
  "heap enc_state 15 = plain [] (JRef 0)"
  "heap enc_state 16 = plain [(Name ''Encryptor'', JRef 15)] (JRef 0)"
  "heap enc_state 17 = plain [] (JRef 0)"
  "heap enc_state 19 = plain [(Name ''ciphertext'', JStr []), (Name ''key'', JRef 11), (Name ''iv'', JRef 13),
            (Name ''algorithm'', JRef 14), (Name ''mode'', JRef 16), (Name ''padding'', JRef 17),
            (Name ''blockSize'', JNum 4), (Name ''formatter'', JRef 18)] (JRef 0)"
  "heap enc_state 20 = func [] ''function () { this.reset(); }'' (Returns []) (JRef 1)"
  "heap enc_state 21 = plain [(Idx 0, JRef 19), (Name ''length'', JNum 1), (Name ''callee'', JRef 20)] (JRef 0)"
  "registry enc_state = Map.empty"
  by (simp_all add: enc_state_def enc_objs_def builtins_def heap_of_def)

lemma enc_formatKey:
  "formatKey realm0 enc_state (JRef 11) = Inr \<lparr>kd_string = [0, 1, 2, 3, 4, 5, 6, 7, 8, 9, 10, 11, 12, 13, 14, 15],
      kd_hex = ''000102030405060708090a0b0c0d0e0f'', kd_base64 = ''AAECAwQFBgcICQoLDA0ODw==''\<rparr>"
  "formatKey realm0 enc_state (JRef 13) = Inr \<lparr>kd_string = code_units ''abcdefghijklmnop'',
      kd_hex = ''6162636465666768696a6b6c6d6e6f70'', kd_base64 = ''YWJjZGVmZ2hpamtsbW5vcA==''\<rparr>"
proof -
  have "formatKey realm0 enc_state (JRef 11) = Inr \<lparr>kd_string = [0, 1, 2, 3, 4, 5, 6, 7, 8, 9, 10, 11, 12, 13, 14, 15],
      kd_hex = ''000102030405060708090a0b0c0d0e0f'', kd_base64 = hexToBase64 ''000102030405060708090a0b0c0d0e0f''\<rparr>"
    by (rule formatKey_buffer[where ts = "JRef 2" and w = 10 and n = 16
          and ws = "[0x00010203, 0x04050607, 0x08090a0b, 0x0c0d0e0f]"])
       (simp_all add: eval_defs enc_heap key_hex key_views)
  then show "formatKey realm0 enc_state (JRef 11) = Inr \<lparr>kd_string = [0, 1, 2, 3, 4, 5, 6, 7, 8, 9, 10, 11, 12, 13, 14, 15],
      kd_hex = ''000102030405060708090a0b0c0d0e0f'', kd_base64 = ''AAECAwQFBgcICQoLDA0ODw==''\<rparr>"
    by (simp only: key_views)
  have "formatKey realm0 enc_state (JRef 13) = Inr \<lparr>kd_string = code_units ''abcdefghijklmnop'',
      kd_hex = ''6162636465666768696a6b6c6d6e6f70'', kd_base64 = hexToBase64 ''6162636465666768696a6b6c6d6e6f70''\<rparr>"
    by (rule formatKey_buffer[where ts = "JRef 2" and w = 12 and n = 16
          and ws = "[0x61626364, 0x65666768, 0x696a6b6c, 0x6d6e6f70]"])
       (simp_all add: eval_defs enc_heap iv_hex iv_views)
  then show "formatKey realm0 enc_state (JRef 13) = Inr \<lparr>kd_string = code_units ''abcdefghijklmnop'',
      kd_hex = ''6162636465666768696a6b6c6d6e6f70'', kd_base64 = ''YWJjZGVmZ2hpamtsbW5vcA==''\<rparr>"
    by (simp only: iv_views)
qed

lemmas run_defs = realm0_simps obj_simps
  returns_undefined_def applyHook_def apply_analysis_def enc_cond_def dec_cond_def hash_cond_def
  arg_def truthy_def typeof_def get_v_def obj_get_def prim_get_def chain.simps own_get_def own_has_def
  has_prop_def hasOwn_def str_own_def hasEncryptProp_def hasDecryptProp_def hasRSAProp_def has_all_def
  super_callee_def andE_def bindE_def bindL_def liftL_def retL_def emits_def truthyE_def swallowL_def
  call_toString_def call_def toString_hook_def nativeMap_has_def native_toString_def contains.simps
  log_key_def log_iv_def objectToString_def
  rx_anon_def rx_named_def skip_ws_def eat_def ident_start_def ident_char_def is_ws_def
  enc_branch_def enc_key_def enc_iv_def enc_keylen_def enc_mode_def enc_padding_def enc_text_def
  dec_branch_def dec_key_def dec_iv_def dec_mode_def dec_padding_def get_sigBytes_def

lemma dec_heap:
  "heap (dec_state cfg) 0 = plain [(Name ''toString'', JRef 2)] JNull"
  "heap (dec_state cfg) (Suc 0) = (func [] ''function () { [native code] }'' (Returns []) (JRef 0))
       \<lparr>props := map_of [(Name ''toString'', JRef 3), (Name ''name'', JStr []), (Name ''length'', JNum 0)]\<rparr>"
  "heap (dec_state cfg) 2 = func ''toString'' ''function toString() { [native code] }'' ObjectToString (JRef 1)"
  "heap (dec_state cfg) 3 = func ''toString'' ''function toString() { [native code] }'' HookedToString (JRef 1)"
  "heap (dec_state cfg) 8 = plain [] (JRef 0)"
  "heap (dec_state cfg) 9 = plain [(Name ''$super'', JRef 8)] (JRef 8)"
  "heap (dec_state cfg) 10 = word_array [0x00010203, 0x04050607, 0x08090a0b, 0x0c0d0e0f] (JRef 0)"
  "heap (dec_state cfg) 11 = plain [(Name ''sigBytes'', JNum 16), (Name ''words'', JRef 10)] (JRef 0)"
  "heap (dec_state cfg) 12 = word_array [0x61626364, 0x65666768, 0x696a6b6c, 0x6d6e6f70] (JRef 0)"
  "heap (dec_state cfg) 13 = plain [(Name ''sigBytes'', JNum 16), (Name ''words'', JRef 12)] (JRef 0)"
  "heap (dec_state cfg) 14 = cfg"
  "heap (dec_state cfg) 15 = func [] ''function (xformMode, key, cfg) { this.cfg = this.cfg.extend(cfg); }'' (Returns []) (JRef 1)"
  "heap (dec_state cfg) 16 = plain [(Idx 0, JNum 2), (Idx 1, JRef 11), (Idx 2, JRef 14), (Name ''length'', JNum 3),
            (Name ''callee'', JRef 15)] (JRef 0)"
  "registry (dec_state cfg) = Map.empty"
  by (simp_all add: dec_state_def dec_objs_def builtins_def heap_of_def)

lemma dec_formatKey:
  "formatKey realm0 (dec_state cfg) (JRef 11) = Inr \<lparr>kd_string = [0, 1, 2, 3, 4, 5, 6, 7, 8, 9, 10, 11, 12, 13, 14, 15],
      kd_hex = ''000102030405060708090a0b0c0d0e0f'', kd_base64 = ''AAECAwQFBgcICQoLDA0ODw==''\<rparr>"
proof -
  have "formatKey realm0 (dec_state cfg) (JRef 11) = Inr \<lparr>kd_string = [0, 1, 2, 3, 4, 5, 6, 7, 8, 9, 10, 11, 12, 13, 14, 15],
      kd_hex = ''000102030405060708090a0b0c0d0e0f'', kd_base64 = hexToBase64 ''000102030405060708090a0b0c0d0e0f''\<rparr>"
    by (rule formatKey_buffer[where ts = "JRef 2" and w = 10 and n = 16
          and ws = "[0x00010203, 0x04050607, 0x08090a0b, 0x0c0d0e0f]"])
       (simp_all add: eval_defs dec_heap key_hex key_views)
  then show ?thesis by (simp only: key_views)
qed

lemma cfg_simps:
  "props cfg_iv = map_of [(Name ''iv'', JRef 13)]" "proto cfg_iv = JRef 0" "kind cfg_iv = Plain"
  "props cfg_empty = Map.empty" "proto cfg_empty = JRef 0" "kind cfg_empty = Plain"
  by (simp_all add: cfg_iv_def cfg_empty_def plain_def)

section \<open>The raw string view never throws\<close>





section \<open>Lemmas on the printed entries\<close>

lemma bindL_liftL: "bindL (liftL x) f = (case x of Inl e \<Rightarrow> ([], Inl e) | Inr v \<Rightarrow> f v)"
  by (cases x) (simp_all add: bindL_def liftL_def split: prod.splits)

lemma bindL_emits: "bindL (emits es) f = (es @ fst (f ()), snd (f ()))"
  by (simp add: bindL_def emits_def split: prod.splits)

lemma fst_bindL_subset: "set (fst (bindL m f)) \<subseteq> set (fst m) \<union> (\<Union>v. set (fst (f v)))"
proof (cases m)
  case (Pair l x)
  show ?thesis
  proof (cases x)
    case (Inl e)
    then show ?thesis using Pair by (simp add: bindL_def)
  next
    case (Inr v)
    then have "fst (bindL m f) = l @ fst (f v)"
      using Pair by (simp add: bindL_def split: prod.splits)
    then show ?thesis using Pair by auto
  qed
qed

lemma fst_seqL_subset: "set (fst (seqL ms)) \<subseteq> (\<Union>m\<in>set ms. set (fst m))"
proof (induction ms)
  case Nil
  show ?case by (simp add: retL_def)
next
  case (Cons m ms)
  have "set (fst (seqL (m # ms))) \<subseteq> set (fst m) \<union> (\<Union>v::unit. set (fst (seqL ms)))"
    using fst_bindL_subset[of m "\<lambda>u. seqL ms"] by simp
  then show ?case using Cons.IH by auto
qed

lemma enc_steps_no_dec_header:
  "Header SYM_DECRYPT \<notin> set (fst (enc_key r st a1))"
  "Header SYM_DECRYPT \<notin> set (fst (enc_iv r st a1))"
  "Header SYM_DECRYPT \<notin> set (fst (enc_keylen r st a1))"
  "Header SYM_DECRYPT \<notin> set (fst (enc_mode r st a1))"
  "Header SYM_DECRYPT \<notin> set (fst (enc_padding r st a1))"
  "Header SYM_DECRYPT \<notin> set (fst (enc_text r st a0 a1))"
  by (auto simp: enc_key_def enc_iv_def enc_keylen_def enc_mode_def enc_padding_def enc_text_def
        swallowL_def bindL_liftL log_key_def log_iv_def emits_def retL_def
        split: sum.splits if_splits)

lemma enc_branch_no_dec_header: "Header SYM_DECRYPT \<notin> set (fst (enc_branch r st this a0 a1))"
proof -
  let ?steps = "[emits [Header SYM_ENCRYPT], enc_key r st a1, enc_iv r st a1, enc_keylen r st a1,
                   enc_mode r st a1, enc_padding r st a1, enc_text r st a0 a1]"
  have "Header SYM_DECRYPT \<notin> (\<Union>m\<in>set ?steps. set (fst m))"
    using enc_steps_no_dec_header[of r st a1] enc_steps_no_dec_header(6)[of r st a0 a1]
    by (simp add: emits_def)
  then have "Header SYM_DECRYPT \<notin> set (fst (seqL ?steps))"
    using fst_seqL_subset[of ?steps] by blast
  then show ?thesis
    by (auto simp: enc_branch_def bindL_liftL retL_def split: sum.splits if_splits)
qed

lemma dec_branch_header:
  "Header SYM_DECRYPT \<in> set (fst (dec_branch r st this a0 a1)) \<longleftrightarrow>
     (hasOwn r (heap st) a0 (Name ''$super'') = Inr True \<and> hasOwn r (heap st) a1 (Name ''callee'') = Inr True
      \<and> (\<exists>s. call_toString r st this = Inr s \<and> \<not> contains ''function()'' s)
      \<and> get_v r (heap st) a1 (Idx 0) = Inr (JNum 2))"
  by (auto simp: dec_branch_def bindL_liftL bindL_emits super_callee_def andE_def bindE_def retL_def
        split: sum.splits if_splits)

lemma enc_dec_exclusive: "enc_cond r h args \<Longrightarrow> \<not> dec_cond r h args"
  by (auto simp: enc_cond_def dec_cond_def)

lemma applyHook_logs: "fst (applyHook r p st this args) = fst (fst (apply_analysis r st this args))"
  by (auto simp: applyHook_def split: prod.splits sum.splits)

section \<open>The key-length classification\<close>

text \<open>
  Claim C6.  \<^verbatim>\<open>get_sigBytes\<close> maps 8, 16, 24 and 32 to \<^verbatim>\<open>64bits\<close>, \<^verbatim>\<open>128bits\<close>,
  \<^verbatim>\<open>192bits\<close> and \<^verbatim>\<open>256bits\<close> and every other value to the "unknown" label.  In the
  first branch of the apply hook, a key that owns \<^verbatim>\<open>sigBytes = 16\<close> is printed with the
  key length \<^verbatim>\<open>128bits\<close>; on Scenario A of the specification the hook prints one
  banner of the symmetric encryption and that key length.
\<close>

theorem C6_key_length_classification:
  "get_sigBytes (JNum 8) = ''64bits'' \<and> get_sigBytes (JNum 16) = ''128bits''
   \<and> get_sigBytes (JNum 24) = ''192bits'' \<and> get_sigBytes (JNum 32) = ''256bits''
   \<and> (v \<notin> {JNum 8, JNum 16, JNum 24, JNum 32} \<longrightarrow> get_sigBytes v = unknown_label)
   \<and> (get_path r (heap st) a1 [Idx 0, Name ''key''] = Inr key \<and> truthy key
        \<and> hasOwn r (heap st) key (Name ''sigBytes'') = Inr True
        \<and> get_v r (heap st) key (Name ''sigBytes'') = Inr (JNum 16)
      \<longrightarrow> enc_keylen r st a1 = ([KeyLength ''128bits''], Inr ()))
   \<and> fst (applyHook realm0 returns_undefined enc_state (JRef 20) [JRef 9, JRef 21]) =
     [Header SYM_ENCRYPT,
      KeyString [0, 1, 2, 3, 4, 5, 6, 7, 8, 9, 10, 11, 12, 13, 14, 15],
      KeyHex ''000102030405060708090a0b0c0d0e0f'',
      KeyBase64 ''AAECAwQFBgcICQoLDA0ODw=='',
      IvString (code_units ''abcdefghijklmnop''),
      IvHex ''6162636465666768696a6b6c6d6e6f70'',
      IvBase64 ''YWJjZGVmZ2hpamtsbW5vcA=='',
      KeyLength ''128bits'',
      OpMode JUndefined,
      PaddingMode (JRef 17)]"
proof -
  have m: "get_sigBytes (JNum 8) = ''64bits'' \<and> get_sigBytes (JNum 16) = ''128bits''
      \<and> get_sigBytes (JNum 24) = ''192bits'' \<and> get_sigBytes (JNum 32) = ''256bits''
      \<and> (v \<notin> {JNum 8, JNum 16, JNum 24, JNum 32} \<longrightarrow> get_sigBytes v = unknown_label)"
    by (simp add: get_sigBytes_def)
  have s: "get_path r (heap st) a1 [Idx 0, Name ''key''] = Inr key \<and> truthy key
        \<and> hasOwn r (heap st) key (Name ''sigBytes'') = Inr True
        \<and> get_v r (heap st) key (Name ''sigBytes'') = Inr (JNum 16)
      \<longrightarrow> enc_keylen r st a1 = ([KeyLength ''128bits''], Inr ())"
    by (simp add: enc_keylen_def bindL_liftL andE_def bindE_def emits_def get_sigBytes_def)
  have a: "fst (applyHook realm0 returns_undefined enc_state (JRef 20) [JRef 9, JRef 21]) =
     [Header SYM_ENCRYPT,
      KeyString [0, 1, 2, 3, 4, 5, 6, 7, 8, 9, 10, 11, 12, 13, 14, 15],
      KeyHex ''000102030405060708090a0b0c0d0e0f'',
      KeyBase64 ''AAECAwQFBgcICQoLDA0ODw=='',
      IvString (code_units ''abcdefghijklmnop''),
      IvHex ''6162636465666768696a6b6c6d6e6f70'',
      IvBase64 ''YWJjZGVmZ2hpamtsbW5vcA=='',
      KeyLength ''128bits'',
      OpMode JUndefined,
      PaddingMode (JRef 17)]"
    by (simp add: run_defs enc_heap enc_formatKey)
  from m s a show ?thesis by blast
qed

theorem C6_key_length_classification_witness:
  "get_sigBytes (JStr ''16'') = unknown_label
   \<and> enc_keylen realm0 enc_state (JRef 21) = ([KeyLength ''128bits''], Inr ())"
proof -
  have v: "JStr ''16'' \<notin> {JNum 8, JNum 16, JNum 24, JNum 32}" by simp
  have k: "get_path realm0 (heap enc_state) (JRef 21) [Idx 0, Name ''key''] = Inr (JRef 11) \<and> truthy (JRef 11)
        \<and> hasOwn realm0 (heap enc_state) (JRef 11) (Name ''sigBytes'') = Inr True
        \<and> get_v realm0 (heap enc_state) (JRef 11) (Name ''sigBytes'') = Inr (JNum 16)"
    by (simp add: run_defs enc_heap)
  from C6_key_length_classification[of "JStr ''16''" realm0 enc_state "JRef 21" "JRef 11"] v k
  show ?thesis by blast
qed

section \<open>An exception of the analysis reaches the caller\<close>

text \<open>
  Claim C1.  The claim does not hold of \<^verbatim>\<open>applyHook\<close>.  On a symmetric decryption with
  an IV, as the target library issues it (\<^verbatim>\<open>arguments = [2, key, {iv: iv}]\<close>, a receiver
  that owns \<^verbatim>\<open>$super\<close>), the second branch prints the banner and the key, and then the
  condition of part_002:1290 reads \<^verbatim>\<open>arguments[1][2][2][2]["iv"]\<close>: the configuration
  has no property 2, so the next read is on \<^verbatim>\<open>undefined\<close> and throws a
  \<^verbatim>\<open>TypeError\<close>.  The branch has no \<^verbatim>\<open>try\<close>; the hook throws and the primitive is
  never called, while the unwrapped primitive returns.
\<close>

theorem C1_decrypt_with_iv_throws:
  "applyHook realm0 returns_undefined (dec_state cfg_iv) (JRef 15) [JRef 9, JRef 16] =
     ([Header SYM_DECRYPT,
       KeyString [0, 1, 2, 3, 4, 5, 6, 7, 8, 9, 10, 11, 12, 13, 14, 15],
       KeyHex ''000102030405060708090a0b0c0d0e0f'',
       KeyBase64 ''AAECAwQFBgcICQoLDA0ODw==''],
      Inl TypeError, dec_state cfg_iv)
   \<and> returns_undefined (dec_state cfg_iv) (JRef 15) [JRef 9, JRef 16] = (Inr JUndefined, dec_state cfg_iv)"
  by (simp add: run_defs dec_heap dec_formatKey cfg_simps)

section \<open>The classification of a symmetric decryption\<close>

text \<open>
  Claim C2, as amended.  The apply hook prints the banner of a symmetric decryption exactly
  when it is called with two arguments, a truthy receiver and a container object whose
  \<^verbatim>\<open>length\<close> is 3, whose first value is the number 2 and whose \<^emph>\<open>second\<close> value has the
  fields \<^verbatim>\<open>sigBytes\<close> and \<^verbatim>\<open>words\<close>, the receiver owns \<^verbatim>\<open>$super\<close>, the container
  owns \<^verbatim>\<open>callee\<close>, and the source of the applied function does not contain
  \<^verbatim>\<open>function()\<close>.  The third value is not inspected by the classification.
\<close>

theorem C2_decrypt_classification:
  "Header SYM_DECRYPT \<in> set (fst (applyHook r temp_apply st this args)) \<longleftrightarrow>
     (length args = 2 \<and> truthy (arg args 0) \<and> truthy (arg args 1)
      \<and> typeof (heap st) (arg args 1) = ''object''
      \<and> get_v r (heap st) (arg args 1) (Name ''length'') = Inr (JNum 3)
      \<and> get_v r (heap st) (arg args 1) (Idx 0) = Inr (JNum 2)
      \<and> (\<exists>x. get_v r (heap st) (arg args 1) (Idx 1) = Inr x \<and> hasDecryptProp r (heap st) x)
      \<and> hasOwn r (heap st) (arg args 0) (Name ''$super'') = Inr True
      \<and> hasOwn r (heap st) (arg args 1) (Name ''callee'') = Inr True
      \<and> (\<exists>s. call_toString r st this = Inr s \<and> \<not> contains ''function()'' s))"
proof (cases "enc_cond r (heap st) args")
  case True
  then have "\<not> dec_cond r (heap st) args" by (rule enc_dec_exclusive)
  moreover have "get_v r (heap st) (arg args 1) (Name ''length'') \<noteq> Inr (JNum 3)"
    using True by (simp add: enc_cond_def)
  ultimately show ?thesis
    using True enc_branch_no_dec_header[of r st this "arg args 0" "arg args 1"]
    by (simp add: applyHook_logs apply_analysis_def)
next
  case False
  show ?thesis
  proof (cases "dec_cond r (heap st) args")
    case True
    have "fst (fst (apply_analysis r st this args)) = fst (dec_branch r st this (arg args 0) (arg args 1))"
      using False True by (simp add: apply_analysis_def)
    then show ?thesis
      using True dec_branch_header[of r st this "arg args 0" "arg args 1"]
      by (auto simp: applyHook_logs dec_cond_def split: sum.splits)
  next
    case nd: False
    have "fst (fst (apply_analysis r st this args)) = []"
      using False nd by (simp add: apply_analysis_def retL_def)
    then show ?thesis
      using nd by (auto simp: applyHook_logs dec_cond_def split: sum.splits)
  qed
qed

theorem C2_decrypt_classification_witness:
  "Header SYM_DECRYPT \<in> set (fst (applyHook realm0 returns_undefined (dec_state cfg_iv) (JRef 15) [JRef 9, JRef 16]))"
proof -
  have "length [JRef 9, JRef 16] = 2 \<and> truthy (arg [JRef 9, JRef 16] 0) \<and> truthy (arg [JRef 9, JRef 16] 1)
      \<and> typeof (heap (dec_state cfg_iv)) (arg [JRef 9, JRef 16] 1) = ''object''
      \<and> get_v realm0 (heap (dec_state cfg_iv)) (arg [JRef 9, JRef 16] 1) (Name ''length'') = Inr (JNum 3)
      \<and> get_v realm0 (heap (dec_state cfg_iv)) (arg [JRef 9, JRef 16] 1) (Idx 0) = Inr (JNum 2)
      \<and> (\<exists>x. get_v realm0 (heap (dec_state cfg_iv)) (arg [JRef 9, JRef 16] 1) (Idx 1) = Inr x
             \<and> hasDecryptProp realm0 (heap (dec_state cfg_iv)) x)
      \<and> hasOwn realm0 (heap (dec_state cfg_iv)) (arg [JRef 9, JRef 16] 0) (Name ''$super'') = Inr True
      \<and> hasOwn realm0 (heap (dec_state cfg_iv)) (arg [JRef 9, JRef 16] 1) (Name ''callee'') = Inr True
      \<and> (\<exists>s. call_toString realm0 (dec_state cfg_iv) (JRef 15) = Inr s \<and> \<not> contains ''function()'' s)"
    by (simp add: run_defs dec_heap)
  then show ?thesis
    using C2_decrypt_classification[of realm0 returns_undefined "dec_state cfg_iv" "JRef 15" "[JRef 9, JRef 16]"]
    by blast
qed

text \<open>
  The claim as stated asks for the buffer shape on the third value.  On the container
  \<^verbatim>\<open>[2, key, {}]\<close> the call is classified although the third value has neither field.
\<close>

theorem C2_decrypt_classification_counterexample:
  "Header SYM_DECRYPT \<in> set (fst (applyHook realm0 returns_undefined (dec_state cfg_empty) (JRef 15) [JRef 9, JRef 16]))
   \<and> get_v realm0 (heap (dec_state cfg_empty)) (JRef 16) (Idx 2) = Inr (JRef 14)
   \<and> \<not> hasDecryptProp realm0 (heap (dec_state cfg_empty)) (JRef 14)"
  by (simp add: run_defs dec_heap dec_formatKey cfg_simps)

section \<open>Lemmas on registration and patching\<close>

lemma obj_get_own: "own_get (h a) k = Some v \<Longrightarrow> obj_get r h a k = v"
  by (simp add: obj_get_def chain.simps[of h a])

lemma set_prop_simps:
  "kind (set_prop h a k v b) = kind (h b)"
  "proto (set_prop h a k v b) = proto (h b)"
  "props (set_prop h a k v b) = (if b = a then (props (h a))(k \<mapsto> v) else props (h b))"
  by (simp_all add: set_prop_def)

lemma own_get_set_prop_name:
  "n \<noteq> ''length'' \<Longrightarrow> own_get (set_prop h a (Name n) v a) (Name n) = Some v"
  by (simp add: own_get_def set_prop_simps split: okind.splits)


lemma makeNative_facts:
  "registry (makeNative r st w orig) = (registry st)(w \<mapsto> orig)"
  "nxt (makeNative r st w orig) = nxt st"
  "kind (heap (makeNative r st w orig) b) = kind (heap st b)"
  "b \<noteq> w \<Longrightarrow> heap (makeNative r st w orig) b = heap st b"
  by (auto simp: makeNative_def Let_def set_prop_simps set_prop_def split: sum.splits prod.splits)

lemma install_facts:
  "registry (install r st pp k hook orig) = (registry st)(nxt st \<mapsto> orig)"
  "nxt (install r st pp k hook orig) = Suc (nxt st)"
  "kind (heap (install r st pp k hook orig) (nxt st)) = kind hook"
  by (simp_all add: install_def Let_def makeNative_facts set_prop_simps)

lemma install_slot:
  "n \<noteq> ''length'' \<Longrightarrow> own_get (heap (install r st pp (Name n) hook orig) pp) (Name n) = Some (JRef (nxt st))"
  by (simp add: install_def Let_def own_get_set_prop_name)

lemma install_get:
  "n \<noteq> ''length'' \<Longrightarrow> obj_get r' (heap (install r st pp (Name n) hook orig)) pp (Name n) = JRef (nxt st)"
  by (rule obj_get_own) (rule install_slot)


lemma patch_finalize_registered:
  "nativeMap_has (patch_finalize r st pp) (obj_get r (heap (patch_finalize r st pp)) pp (Name ''finalize''))"
  by (simp add: patch_finalize_def Let_def nativeMap_has_def install_facts
        install_get)

lemma patch_encrypt_registered:
  "nativeMap_has (patch_encrypt r st pp) (obj_get r (heap (patch_encrypt r st pp)) pp (Name ''encrypt''))"
  by (simp add: patch_encrypt_def Let_def nativeMap_has_def install_facts
        install_get)









lemma hash_heap:
  "heap hash_state 0 = plain [(Name ''toString'', JRef 2)] JNull"
  "heap hash_state 8 = func ''finalize'' ''function (messageUpdate) { if (messageUpdate) { this._append(messageUpdate); } }''
       (Returns []) (JRef 1)"
  "heap hash_state 9 = plain [(Name ''finalize'', JRef 8)] (JRef 0)"
  "heap hash_state 10 = plain [(Name ''$super'', JRef 9), (Name ''_doFinalize'', JRef 11)] (JRef 9)"
  "heap hash_state 12 = plain [] (JRef 10)"
  "heap hash_state 13 = plain [(Name ''length'', JNum 0), (Name ''callee'', JRef 14)] (JRef 0)"
  "heap hash_state 14 = func ''init'' ''function init(cfg) { this.reset(); }'' (Returns []) (JRef 1)"
  "registry hash_state = Map.empty" "nxt hash_state = 15"
  by (simp_all add: hash_state_def hash_objs_def builtins_def heap_of_def)


lemmas patch_defs = realm0_simps obj_simps arg_def truthy_def typeof_def get_v_def obj_get_def prim_get_def
  chain.simps own_get_def own_has_def has_prop_def hasOwn_def str_own_def has_all_def hasRSAProp_def
  hasEncryptProp_def hasDecryptProp_def andE_def bindE_def truthyE_def nativeMap_has_def
  enc_cond_def dec_cond_def hash_cond_def rsa_cond_def finalize_cond_def crypt_cond_def in_v_def

lemma own_get_fn: "kind ob = Fn src body \<Longrightarrow> own_get ob k = props ob k"
  by (simp add: own_get_def)

lemma reg_heap:
  "heap reg_state 0 = plain [(Name ''toString'', JRef 2)] JNull"
  "heap reg_state (Suc 0) = (func [] ''function () { [native code] }'' (Returns []) (JRef 0))
       \<lparr>props := map_of [(Name ''toString'', JRef 3), (Name ''name'', JStr []), (Name ''length'', JNum 0)]\<rparr>"
  "heap reg_state 8 = (func ''apply'' ''function apply() { [native code] }'' (Returns []) (JRef 1))
       \<lparr>props := map_of [(Name ''name'', JStr ''apply''), (Name ''length'', JNum 2)]\<rparr>"
  "heap reg_state 9 = func ''applyHook'' ''function () { if (arguments.length === 2) { [debug] } }'' (Returns []) (JRef 1)"
  "registry reg_state = Map.empty"
  by (simp_all add: reg_state_def reg_objs_def builtins_def heap_of_def)

lemma finalize_cond_target:
  assumes "finalize_cond r h a0 = Inr True"
  shows "\<exists>pp. get_path r h a0 [Name ''__proto__'', Name ''__proto__''] = Inr (JRef pp)"
proof -
  from assms obtain v where v: "get_path r h a0 [Name ''__proto__'', Name ''__proto__''] = Inr v"
    and o: "hasOwn r h v (Name ''finalize'') = Inr True"
    by (auto simp: finalize_cond_def andE_def bindE_def truthyE_def split: sum.splits if_splits)
  from o obtain pp where "v = JRef pp"
    by (cases v) (simp_all add: hasOwn_def str_own_def)
  with v show ?thesis by blast
qed

section \<open>Reflection on a registered wrapper\<close>

text \<open>
  Claim C7.  After \<^verbatim>\<open>makeNative(w, f)\<close> has registered the wrapper function \<open>w\<close> with its
  original function \<open>f\<close>, the replaced \<^verbatim>\<open>Function.prototype.toString\<close> on \<open>w\<close> returns
  the source text of \<open>f\<close>, which is what the host's own \<^verbatim>\<open>toString\<close> returns on \<open>f\<close>
  and, when \<open>f\<close> is not itself a registered wrapper, what the replaced one returns on
  \<open>f\<close>; and the \<^verbatim>\<open>name\<close> and \<^verbatim>\<open>length\<close> of \<open>w\<close> are those of \<open>f\<close>.  The instance
  is the registration of \<^verbatim>\<open>applyHook\<close> with the host's \<^verbatim>\<open>apply\<close>.
\<close>

theorem C7_wrapper_concealed:
  assumes "kind (heap st w) = Fn wsrc wbody" and "kind (heap st f) = Fn fsrc fbody"
  shows "toString_hook (makeNative r st w (JRef f)) (JRef w) = Inr fsrc
     \<and> native_toString (heap (makeNative r st w (JRef f))) (JRef f) = Inr fsrc
     \<and> (registry st f = None \<and> f \<noteq> w \<longrightarrow>
          toString_hook (makeNative r st w (JRef f)) (JRef w) = toString_hook (makeNative r st w (JRef f)) (JRef f))
     \<and> obj_get r (heap (makeNative r st w (JRef f))) w (Name ''name'') = obj_get r (heap st) f (Name ''name'')
     \<and> obj_get r (heap (makeNative r st w (JRef f))) w (Name ''length'') = obj_get r (heap st) f (Name ''length'')"
proof -
  let ?n = "obj_get r (heap st) f (Name ''name'')"
  let ?l = "obj_get r (heap st) f (Name ''length'')"
  let ?h = "set_prop (set_prop (heap st) w (Name ''name'') ?n) w (Name ''length'') ?l"
  let ?st = "makeNative r st w (JRef f)"
  have st': "heap ?st = ?h" "registry ?st = (registry st)(w \<mapsto> JRef f)"
    by (simp_all add: makeNative_def get_v_def Let_def)
  have kf: "kind (?h f) = Fn fsrc fbody" and kw: "kind (?h w) = Fn wsrc wbody"
    using assms by (simp_all add: set_prop_simps)
  have nat: "native_toString (heap ?st) (JRef f) = Inr fsrc"
    using kf by (simp add: st' native_toString_def)
  have hook: "toString_hook ?st (JRef w) = Inr fsrc"
    using nat by (simp add: toString_hook_def nativeMap_has_def st'(2))
  have same: "toString_hook ?st (JRef f) = Inr fsrc" if "registry st f = None" "f \<noteq> w"
    using that nat by (simp add: toString_hook_def nativeMap_has_def st'(2))
  have "own_get (?h w) (Name ''name'') = Some ?n"
    using kw by (simp add: own_get_fn set_prop_simps)
  then have name: "obj_get r (heap ?st) w (Name ''name'') = ?n"
    by (simp only: st'(1) obj_get_own)
  have "own_get (?h w) (Name ''length'') = Some ?l"
    using kw by (simp add: own_get_fn set_prop_simps)
  then have len: "obj_get r (heap ?st) w (Name ''length'') = ?l"
    by (simp only: st'(1) obj_get_own)
  from hook nat same name len show ?thesis by simp
qed

theorem C7_wrapper_concealed_witness:
  "toString_hook (makeNative realm0 reg_state 9 (JRef 8)) (JRef 9) = Inr ''function apply() { [native code] }''
   \<and> obj_get realm0 (heap (makeNative realm0 reg_state 9 (JRef 8))) 9 (Name ''name'') = JStr ''apply''
   \<and> obj_get realm0 (heap (makeNative realm0 reg_state 9 (JRef 8))) 9 (Name ''length'') = JNum 2
   \<and> native_toString (heap reg_state) (JRef 9) = Inr ''function () { if (arguments.length === 2) { [debug] } }''"
proof -
  have k9: "kind (heap reg_state 9) = Fn ''function () { if (arguments.length === 2) { [debug] } }'' (Returns [])"
    by (simp add: reg_heap obj_simps)
  have k8: "kind (heap reg_state 8) = Fn ''function apply() { [native code] }'' (Returns [])"
    by (simp add: reg_heap obj_simps)
  have n: "obj_get realm0 (heap reg_state) 8 (Name ''name'') = JStr ''apply''"
    "obj_get realm0 (heap reg_state) 8 (Name ''length'') = JNum 2"
    by (simp_all add: obj_get_own own_get_def reg_heap obj_simps)
  have s: "native_toString (heap reg_state) (JRef 9) = Inr ''function () { if (arguments.length === 2) { [debug] } }''"
    by (simp add: native_toString_def k9)
  from C7_wrapper_concealed[of reg_state 9 _ _ 8 _ _ realm0, OF k9 k8] n s
  show ?thesis by simp
qed

section \<open>Patching a method twice\<close>




section \<open>The hash branch\<close>

text \<open>
  Claim C9, as amended.  Hash matching happens on the APPLY path only.  When the apply hook
  is called with two arguments that are both objects, neither of the two earlier tests on
  the container holds, the receiver's prototype owns \<^verbatim>\<open>$super\<close> and \<^verbatim>\<open>_doFinalize\<close> and
  the prototype of that owns \<^verbatim>\<open>finalize\<close>, then the hook prints nothing, does not throw,
  and leaves that \<^verbatim>\<open>finalize\<close> slot holding a registered wrapper: a new one that
  captured the previous method, unless the slot held a registered wrapper already.  The
  call hook leaves the state as it is on such arguments.
\<close>

theorem C9_hash_patch_on_apply:
  assumes "hash_cond (heap st) args" and "\<not> enc_cond r (heap st) args" and "\<not> dec_cond r (heap st) args"
    and "finalize_cond r (heap st) (arg args 0) = Inr True"
  shows "\<exists>pp. get_path r (heap st) (arg args 0) [Name ''__proto__'', Name ''__proto__''] = Inr (JRef pp)
      \<and> apply_analysis r st this args = (([], Inr ()), patch_finalize r st pp)
      \<and> nativeMap_has (patch_finalize r st pp) (obj_get r (heap (patch_finalize r st pp)) pp (Name ''finalize''))
      \<and> (\<not> nativeMap_has st (obj_get r (heap st) pp (Name ''finalize'')) \<longrightarrow>
            obj_get r (heap (patch_finalize r st pp)) pp (Name ''finalize'') = JRef (nxt st)
          \<and> registry (patch_finalize r st pp) (nxt st) = Some (obj_get r (heap st) pp (Name ''finalize''))
          \<and> kind (heap (patch_finalize r st pp) (nxt st))
              = Fn finalizeHook_src (FinalizeHook (obj_get r (heap st) pp (Name ''finalize''))))
      \<and> call_analysis r st args = st"
proof -
  from finalize_cond_target[OF assms(4)] obtain pp
    where pp: "get_path r (heap st) (arg args 0) [Name ''__proto__'', Name ''__proto__''] = Inr (JRef pp)"
    by blast
  have a: "apply_analysis r st this args = (([], Inr ()), patch_finalize r st pp)"
    using assms pp by (simp add: apply_analysis_def hash_patch_def retL_def)
  have b: "nativeMap_has (patch_finalize r st pp) (obj_get r (heap (patch_finalize r st pp)) pp (Name ''finalize''))"
    by (rule patch_finalize_registered)
  have c: "obj_get r (heap (patch_finalize r st pp)) pp (Name ''finalize'') = JRef (nxt st)
          \<and> registry (patch_finalize r st pp) (nxt st) = Some (obj_get r (heap st) pp (Name ''finalize''))
          \<and> kind (heap (patch_finalize r st pp) (nxt st))
              = Fn finalizeHook_src (FinalizeHook (obj_get r (heap st) pp (Name ''finalize'')))"
    if "\<not> nativeMap_has st (obj_get r (heap st) pp (Name ''finalize''))"
    using that by (simp add: patch_finalize_def Let_def install_get install_facts new_function_def)
  have "length args = 2" using assms(1) by (simp add: hash_cond_def)
  then have d: "call_analysis r st args = st"
    by (simp add: call_analysis_def rsa_cond_def)
  from pp a b c d show ?thesis by blast
qed

theorem C9_hash_patch_on_apply_witness:
  "apply_analysis realm0 hash_state (JRef 14) [JRef 12, JRef 13] = (([], Inr ()), patch_finalize realm0 hash_state 9)
   \<and> obj_get realm0 (heap (patch_finalize realm0 hash_state 9)) 9 (Name ''finalize'') = JRef 15
   \<and> registry (patch_finalize realm0 hash_state 9) 15 = Some (JRef 8)"
proof -
  have 1: "hash_cond (heap hash_state) [JRef 12, JRef 13]"
    and 2: "\<not> enc_cond realm0 (heap hash_state) [JRef 12, JRef 13]"
    and 3: "\<not> dec_cond realm0 (heap hash_state) [JRef 12, JRef 13]"
    and 4: "finalize_cond realm0 (heap hash_state) (arg [JRef 12, JRef 13] 0) = Inr True"
    and 5: "get_path realm0 (heap hash_state) (arg [JRef 12, JRef 13] 0) [Name ''__proto__'', Name ''__proto__''] = Inr (JRef 9)"
    and 6: "\<not> nativeMap_has hash_state (obj_get realm0 (heap hash_state) 9 (Name ''finalize''))"
    and 7: "obj_get realm0 (heap hash_state) 9 (Name ''finalize'') = JRef 8"
    by (simp_all add: patch_defs hash_heap)
  from C9_hash_patch_on_apply[of hash_state "[JRef 12, JRef 13]" realm0 "JRef 14", OF 1 2 3 4]
  obtain pp where pp: "get_path realm0 (heap hash_state) (arg [JRef 12, JRef 13] 0) [Name ''__proto__'', Name ''__proto__''] = Inr (JRef pp)"
    and a: "apply_analysis realm0 hash_state (JRef 14) [JRef 12, JRef 13] = (([], Inr ()), patch_finalize realm0 hash_state pp)"
    and c: "\<not> nativeMap_has hash_state (obj_get realm0 (heap hash_state) pp (Name ''finalize'')) \<longrightarrow>
            obj_get realm0 (heap (patch_finalize realm0 hash_state pp)) pp (Name ''finalize'') = JRef (nxt hash_state)
          \<and> registry (patch_finalize realm0 hash_state pp) (nxt hash_state) = Some (obj_get realm0 (heap hash_state) pp (Name ''finalize''))
          \<and> kind (heap (patch_finalize realm0 hash_state pp) (nxt hash_state))
              = Fn finalizeHook_src (FinalizeHook (obj_get realm0 (heap hash_state) pp (Name ''finalize'')))"
    by blast
  from pp 5 have "pp = 9" by simp
  with a c 6 7 show ?thesis by (simp add: hash_heap)
qed

text \<open>
  The claim as stated includes the CALL path.  On the hasher of \<open>hash_state\<close>, called with
  the receiver and one more object, every condition of the claim holds and the call hook
  neither prints nor patches: \<^verbatim>\<open>finalize\<close> is still the unregistered object 8.
\<close>

theorem C9_hash_patch_on_apply_counterexample:
  "hash_cond (heap hash_state) [JRef 12, JRef 13]
   \<and> finalize_cond realm0 (heap hash_state) (JRef 12) = Inr True
   \<and> obj_get realm0 (heap hash_state) 9 (Name ''finalize'') = JRef 8
   \<and> \<not> nativeMap_has hash_state (JRef 8)
   \<and> callHook realm0 returns_undefined hash_state (JRef 14) [JRef 12, JRef 13] = ([], Inr JUndefined, hash_state)"
  by (simp add: patch_defs hash_heap callHook_def call_analysis_def returns_undefined_def)

end
